theory Spec2Isabelle
  imports
    Complex_Main
    "HOL-Library.AList"
    "HOL-Library.Char_ord"
    "HOL-Library.List_Lexorder"
    "HOL-Library.Product_Lexorder"
begin

section \<open>Token price history: fetch, table, ratios, profit (main.py)\<close>

text \<open>
  A shallow embedding of \<^verbatim>\<open>main.py\<close>. What lies outside the script is a parameter:
  the remote API, the order in which the concurrent requests complete and the date
  parser of the dataframe library are the fields of a \<open>world\<close>.

  Numbers. A JSON price is a finite number and is modelled as a \<open>real\<close>; the results of
  the float arithmetic of the script are \<open>float\<close> values: a real, or one of the special
  values that a division by zero produces. Rounding and overflow are not modelled (this
  includes the float32 round trip of \<^verbatim>\<open>downcast="float"\<close>), nor is the negative zero.

  Strings are ordered as Python orders them, character by character.
\<close>

subsection \<open>Exceptions\<close>

datatype error =
    Exception string
  | KeyError string
  | ValueError string
  | ParserError string

definition and_then :: "error + 'a \<Rightarrow> ('a \<Rightarrow> error + 'b) \<Rightarrow> error + 'b" where
  "and_then m f = (case m of Inl e \<Rightarrow> Inl e | Inr v \<Rightarrow> f v)"

text \<open>A comprehension whose body may raise: the first exception ends it.\<close>

fun mapM :: "('a \<Rightarrow> error + 'b) \<Rightarrow> 'a list \<Rightarrow> error + 'b list" where
  "mapM f [] = Inr []"
| "mapM f (v # vs) =
     (case f v of
        Inl e \<Rightarrow> Inl e
      | Inr u \<Rightarrow> (case mapM f vs of Inl e \<Rightarrow> Inl e | Inr us \<Rightarrow> Inr (u # us)))"

subsection \<open>Numbers and text\<close>

datatype float = Fin real | PInf | NInf | NaN

text \<open>Division of two float columns, element by element: no exception on a zero divisor.\<close>

definition fdiv :: "real \<Rightarrow> real \<Rightarrow> float" where
  "fdiv a b =
     (if b \<noteq> 0 then Fin (a / b)
      else if 0 < a then PInf
      else if a < 0 then NInf
      else NaN)"

fun fmul :: "float \<Rightarrow> real \<Rightarrow> float" where
  "fmul (Fin a) b = Fin (a * b)"
| "fmul PInf b = (if 0 < b then PInf else if b < 0 then NInf else NaN)"
| "fmul NInf b = (if 0 < b then NInf else if b < 0 then PInf else NaN)"
| "fmul NaN b = NaN"

fun fsub :: "float \<Rightarrow> real \<Rightarrow> float" where
  "fsub (Fin a) b = Fin (a - b)"
| "fsub PInf b = PInf"
| "fsub NInf b = NInf"
| "fsub NaN b = NaN"

text \<open>\<^verbatim>\<open>str\<close> of a non-negative integer, as an f-string renders it.\<close>

fun str_nat :: "nat \<Rightarrow> string" where
  "str_nat n =
     (if n < 10 then [''0123456789'' ! n]
      else str_nat (n div 10) @ [''0123456789'' ! (n mod 10)])"

subsection \<open>The remote API and its JSON\<close>

text \<open>
  The body of a response, with the keys the script reads:
  \<^verbatim>\<open>{"data": {"prices": [{"date": ..., "price": ..., "contract_metadata":
  {"contract_ticker_symbol": ...}}, ...]}}\<close>. The keys \<^verbatim>\<open>date\<close> and \<^verbatim>\<open>price\<close> are the
  fields \<open>date_str\<close> and \<open>price_num\<close>, to keep them apart from the columns of the
  dataframe.
\<close>

record contract_metadata_json =
  contract_ticker_symbol :: string

record price_json =
  date_str :: string
  price_num :: real
  contract_metadata :: contract_metadata_json

record data_json =
  prices :: "price_json list"

record history_json =
  data :: data_json

record request =
  url :: string
  params :: "(string \<times> string) list"

record response =
  status_code :: nat
  json :: history_json

text \<open>A calendar date: year, month, day, ordered lexicographically.\<close>

type_synonym date = "nat \<times> nat \<times> nat"

text \<open>
  \<open>client_get\<close> is the remote end of \<^verbatim>\<open>client.get\<close>; \<open>arrival\<close> lists the indices of
  the tasks of a \<^verbatim>\<open>gather\<close> in the order in which they complete; \<open>to_datetime\<close> is
  the library's parser of one date string.
\<close>

record world =
  API_KEY :: string
  client_get :: "request \<Rightarrow> response"
  arrival :: "nat list"
  to_datetime :: "string \<Rightarrow> error + date"

text \<open>
  One such parser, for the concrete runs below: it reads the API's format
  \<^verbatim>\<open>YYYY-MM-DD\<close> and nothing else.
\<close>

fun number_of :: "nat \<Rightarrow> string \<Rightarrow> nat option" where
  "number_of acc [] = Some acc"
| "number_of acc (c # cs) =
     (case map_of (zip ''0123456789'' [0, 1, 2, 3, 4, 5, 6, 7, 8, 9]) c of
        None \<Rightarrow> None
      | Some d \<Rightarrow> number_of (10 * acc + d) cs)"

definition iso_date :: "string \<Rightarrow> error + date" where
  "iso_date s =
     (if length s = 10 \<and> s ! 4 = CHR ''-'' \<and> s ! 7 = CHR ''-''
      then (case (number_of 0 (take 4 s), number_of 0 (take 2 (drop 5 s)),
                  number_of 0 (drop 8 s)) of
              (Some y, Some m, Some d) \<Rightarrow> Inr (y, m, d)
            | _ \<Rightarrow> Inl (ParserError s))
      else Inl (ParserError s))"

subsection \<open>Price Fetcher\<close>

definition HISTORICAL_PRICE_ENDPOINT :: "string \<Rightarrow> string" where
  "HISTORICAL_PRICE_ENDPOINT TICKER =
     ''https://api.covalenthq.com/v1/pricing/historical/USD/'' @ TICKER @ ''/''"

text \<open>
  A coroutine of the fetcher is the request it sends once started, with the outcome it
  completes with.
\<close>

type_synonym 'a task = "request \<times> (error + 'a)"

text \<open>
  The status is compared by identity with the integer 200 in the source, which for an
  integer of this size is equality.
\<close>

definition get_token_price_history ::
  "world \<Rightarrow> string \<Rightarrow> string \<Rightarrow> string \<Rightarrow> history_json task" where
  "get_token_price_history w ticker from_date to_date =
     (let url = HISTORICAL_PRICE_ENDPOINT ticker;
          params = [(''key'', API_KEY w), (''from'', from_date), (''to'', to_date)];
          req = \<lparr>url = url, params = params\<rparr>;
          resp = client_get w req
      in (req,
          if status_code resp \<noteq> 200
          then Inl (Exception (''ticker: '' @ ticker @ '', status_code: ''
                               @ str_nat (status_code resp)))
          else Inr (json resp)))"

fun first_error :: "(error + 'a) list \<Rightarrow> error option" where
  "first_error [] = None"
| "first_error (Inl e # rs) = Some e"
| "first_error (Inr v # rs) = first_error rs"

text \<open>
  \<^verbatim>\<open>asyncio.gather\<close>: every task is started, in the order of the list. The tasks
  complete in the order \<open>order\<close> (an index that names no task is skipped, a task that
  \<open>order\<close> leaves out completes after those it names). The first task to complete
  with an exception ends the wait with that exception; otherwise the results come back
  in the order of the list.
\<close>

definition gather :: "nat list \<Rightarrow> 'a task list \<Rightarrow> request list \<times> (error + 'a list)" where
  "gather order tasks =
     (let completed = map (\<lambda>i. snd (tasks ! i)) (filter (\<lambda>i. i < length tasks) order)
                      @ map snd tasks
      in (map fst tasks,
          case first_error completed of
            Some e \<Rightarrow> Inl e
          | None \<Rightarrow> mapM snd tasks))"

definition get_all_token_prices ::
  "world \<Rightarrow> string list \<Rightarrow> string \<Rightarrow> string \<Rightarrow> request list \<times> (error + history_json list)" where
  "get_all_token_prices w ticker_list from_date to_date =
     (let tasks = map (\<lambda>ticker. get_token_price_history w ticker from_date to_date) ticker_list
      in gather (arrival w) tasks)"

subsection \<open>Table Builder\<close>

text \<open>
  The working table: one row per price sample, labelled by its position (the default
  index of the dataframe library).
\<close>

record row =
  date :: date
  price :: real
  ticker :: string

type_synonym dataframe = "row list"

text \<open>
  The records under \<^verbatim>\<open>data.prices\<close> of every history, one after the other; a history
  without samples contributes nothing.
\<close>

definition json_normalize :: "history_json list \<Rightarrow> price_json list" where
  "json_normalize token_prices = concat (map (\<lambda>obj. prices (data obj)) token_prices)"

text \<open>
  A frame built from no record at all has no column, and selecting the three columns
  raises. Otherwise the columns are selected and renamed; the price column is already
  numeric; the date column is parsed, element by element.
\<close>

definition historical_prices_to_df :: "world \<Rightarrow> history_json list \<Rightarrow> error + dataframe" where
  "historical_prices_to_df w token_prices =
     (let df = json_normalize token_prices
      in if df = []
         then Inl (KeyError ''date, price, contract_metadata.contract_ticker_symbol'')
         else mapM (\<lambda>r. and_then (to_datetime w (date_str r))
                            (\<lambda>d. Inr \<lparr>date = d, price = price_num r,
                                      ticker = contract_ticker_symbol (contract_metadata r)\<rparr>))
                   df)"

subsection \<open>Metric Calculator: the summary\<close>

text \<open>
  \<^verbatim>\<open>groupby("ticker")\<close>: the groups in the order of their keys, every group with its
  rows (and their labels) in the order of the frame.
\<close>

definition groupby :: "(nat \<times> row) list \<Rightarrow> (string \<times> (nat \<times> row) list) list" where
  "groupby df =
     map (\<lambda>k. (k, filter (\<lambda>(i, r). ticker r = k) df))
         (sort (remdups (map (\<lambda>(i, r). ticker r) df)))"

text \<open>The label of the first largest (smallest) value of a labelled series.\<close>

fun idxmax_from :: "nat \<times> real \<Rightarrow> (nat \<times> real) list \<Rightarrow> nat" where
  "idxmax_from best [] = fst best"
| "idxmax_from best (v # vs) = idxmax_from (if snd best < snd v then v else best) vs"

definition idxmax :: "(nat \<times> real) list \<Rightarrow> error + nat" where
  "idxmax s =
     (case s of
        [] \<Rightarrow> Inl (ValueError ''attempt to get argmax of an empty sequence'')
      | v # vs \<Rightarrow> Inr (idxmax_from v vs))"

fun idxmin_from :: "nat \<times> real \<Rightarrow> (nat \<times> real) list \<Rightarrow> nat" where
  "idxmin_from best [] = fst best"
| "idxmin_from best (v # vs) = idxmin_from (if snd v < snd best then v else best) vs"

definition idxmin :: "(nat \<times> real) list \<Rightarrow> error + nat" where
  "idxmin s =
     (case s of
        [] \<Rightarrow> Inl (ValueError ''attempt to get argmin of an empty sequence'')
      | v # vs \<Rightarrow> Inr (idxmin_from v vs))"

text \<open>\<^verbatim>\<open>df.loc[i]\<close>, then \<^verbatim>\<open>set_index("ticker")\<close>: the row labelled \<open>i\<close>, keyed by its ticker.\<close>

definition loc :: "dataframe \<Rightarrow> nat \<Rightarrow> error + string \<times> date \<times> real" where
  "loc df i =
     (if i < length df then Inr (ticker (df ! i), date (df ! i), price (df ! i))
      else Inl (KeyError (str_nat i)))"

text \<open>\<^verbatim>\<open>agg(["first", "last"])\<close> on one group.\<close>

definition agg_first_last ::
  "string \<times> (nat \<times> row) list \<Rightarrow> error + string \<times> (date \<times> date) \<times> (real \<times> real)" where
  "agg_first_last g =
     (case snd g of
        [] \<Rightarrow> Inl (ValueError ''empty group'')
      | v # vs \<Rightarrow>
          Inr (fst g,
               (date (snd v), date (snd (last (v # vs)))),
               (price (snd v), price (snd (last (v # vs))))))"

text \<open>
  The summary table: per ticker the columns \<^verbatim>\<open>date\<close> and \<^verbatim>\<open>price\<close>, each with
  the sub-columns \<^verbatim>\<open>first\<close>, \<^verbatim>\<open>last\<close>, \<^verbatim>\<open>max\<close>, \<^verbatim>\<open>min\<close>.
\<close>

record summary =
  date_first :: date
  date_last :: date
  date_max :: date
  date_min :: date
  price_first :: real
  price_last :: real
  price_max :: real
  price_min :: real

text \<open>
  A table is the summary rows keyed by ticker, with the columns that later assignments
  add, each a name and one value per row, in the order of the columns.
\<close>

record table =
  rows :: "(string \<times> summary) list"
  extra :: "(string \<times> float list) list"

text \<open>
  \<^verbatim>\<open>concat(axis=1)\<close> and \<^verbatim>\<open>join\<close> align on the ticker. The library fills a label without
  a partner with missing values, which a summary row cannot hold: that case is an
  error here (\<open>make_table_df_rows\<close> shows that it does not arise).
\<close>

definition align :: "(string \<times> 'a) list \<Rightarrow> (string \<times> 'b) list \<Rightarrow> error + (string \<times> 'a \<times> 'b) list" where
  "align left right =
     mapM (\<lambda>(k, a). case map_of right k of
                       None \<Rightarrow> Inl (ValueError (''no partner for '' @ k))
                     | Some b \<Rightarrow> Inr (k, a, b))
          left"

text \<open>
  \<^verbatim>\<open>sort_values("date")\<close> is modelled by a stable sort. The library's default sort is not
  stable, so where one ticker has two samples of the same date the row it takes as first
  or last may be another of them.
\<close>

definition make_table_df :: "dataframe \<Rightarrow> error + table" where
  "make_table_df df =
     and_then (mapM (\<lambda>(k, g). and_then (idxmax (map (\<lambda>(i, r). (i, price r)) g)) (loc df))
                    (groupby (enumerate 0 df))) (\<lambda>df_max.
     and_then (mapM (\<lambda>(k, g). and_then (idxmin (map (\<lambda>(i, r). (i, price r)) g)) (loc df))
                    (groupby (enumerate 0 df))) (\<lambda>df_min.
     and_then (align df_min df_max) (\<lambda>df_min_max.
     and_then (mapM agg_first_last
                    (groupby (sort_key (\<lambda>(i, r). date r) (enumerate 0 df)))) (\<lambda>df_first_last.
     and_then (align df_min_max df_first_last) (\<lambda>res.
       Inr \<lparr>rows = map (\<lambda>(k, ((dmin, pmin), (dmax, pmax)), ((dfirst, dlast), (pfirst, plast))).
                          (k, \<lparr>date_first = dfirst, date_last = dlast,
                               date_max = dmax, date_min = dmin,
                               price_first = pfirst, price_last = plast,
                               price_max = pmax, price_min = pmin\<rparr>))
                        res,
            extra = []\<rparr>)))))"

subsection \<open>Metric Calculator: ratios and profit\<close>

text \<open>
  Both functions assign columns to the table they are given and return that very table.
  Tables are therefore objects in a store, and a frame variable holds a reference.
\<close>

type_synonym ref = nat

record store =
  objs :: "ref \<Rightarrow> table"
  next_ref :: ref

text \<open>Binding a newly built table: it gets a reference that no other object has.\<close>

definition new :: "store \<Rightarrow> table \<Rightarrow> store \<times> ref" where
  "new s t = (s\<lparr>objs := (objs s)(next_ref s := t), next_ref := Suc (next_ref s)\<rparr>, next_ref s)"

text \<open>
  \<^verbatim>\<open>df[name] = values\<close>: a column of that name gets the new values where it stands, a new
  name is a new last column. \<^verbatim>\<open>df[name]\<close> of a name that is no column raises.
\<close>

definition setitem :: "store \<Rightarrow> ref \<Rightarrow> string \<Rightarrow> float list \<Rightarrow> store" where
  "setitem s df name vals =
     s\<lparr>objs := (objs s)(df := (objs s df)\<lparr>extra := AList.update name vals (extra (objs s df))\<rparr>)\<rparr>"

definition getitem :: "store \<Rightarrow> ref \<Rightarrow> string \<Rightarrow> error + float list" where
  "getitem s df name =
     (case map_of (extra (objs s df)) name of
        None \<Rightarrow> Inl (KeyError name)
      | Some vals \<Rightarrow> Inr vals)"

definition calculate_price_ratio :: "store \<Rightarrow> ref \<Rightarrow> store \<times> ref" where
  "calculate_price_ratio s df =
     (let df_price = map snd (rows (objs s df));
          s1 = setitem s df ''r_last''
                 (map (\<lambda>p. fdiv (price_last p) (price_first p)) df_price);
          s2 = setitem s1 df ''r_max''
                 (map (\<lambda>p. fdiv (price_max p) (price_first p)) df_price)
      in (s2, df))"

definition calculate_profit :: "store \<Rightarrow> ref \<Rightarrow> int \<Rightarrow> error + store \<times> ref" where
  "calculate_profit s df deposit =
     and_then (getitem s df ''r_last'') (\<lambda>r_last.
       let s1 = setitem s df ''p_last''
                  (map (\<lambda>r. fsub (fmul r (of_int deposit)) (of_int deposit)) r_last)
       in and_then (getitem s1 df ''r_max'') (\<lambda>r_max.
            let s2 = setitem s1 df ''p_max''
                       (map (\<lambda>r. fsub (fmul r (of_int deposit)) (of_int deposit)) r_max)
            in Inr (s2, df)))"

subsection \<open>Report Renderer and the entry point\<close>

record chart =
  title :: string
  tickers :: "string list"
  bars :: "(string \<times> float list) list"
  barmode :: string
  hovermode :: string
  yaxis_title :: string
  tickformat :: string

definition show_chart :: "store \<Rightarrow> ref \<Rightarrow> string \<Rightarrow> error + chart" where
  "show_chart s df ttl =
     and_then (getitem s df ''p_last'') (\<lambda>p_last.
     and_then (getitem s df ''p_max'') (\<lambda>p_max.
       Inr \<lparr>title = ttl, tickers = map fst (rows (objs s df)),
            bars = [(''p_last'', p_last), (''p_max'', p_max)],
            barmode = ''overlay'', hovermode = ''x'',
            yaxis_title = ''profit, $'', tickformat = '',.0f''\<rparr>))"

text \<open>
  Lines 153 to 156 of \<^verbatim>\<open>main\<close>: the table is built from the fetched histories and bound
  to \<^verbatim>\<open>df\<close>, then enriched in place.
\<close>

definition build_table :: "world \<Rightarrow> store \<Rightarrow> history_json list \<Rightarrow> int \<Rightarrow> error + store \<times> ref" where
  "build_table w s token_prices DEPOSIT =
     and_then (historical_prices_to_df w token_prices) (\<lambda>df0.
     and_then (make_table_df df0) (\<lambda>t.
       let (s1, df) = new s t;
           (s2, df) = calculate_price_ratio s1 df
       in calculate_profit s2 df DEPOSIT))"

text \<open>
  The run, with the four constants of \<^verbatim>\<open>main\<close> as arguments: the requests sent, and
  either the exception that ended the run or the printed table with the chart shown.
\<close>

definition main_with ::
  "world \<Rightarrow> store \<Rightarrow> string list \<Rightarrow> string \<Rightarrow> string \<Rightarrow> int
     \<Rightarrow> request list \<times> (error + table \<times> chart)" where
  "main_with w s TICKER_LIST START_DATE END_DATE DEPOSIT =
     (let (sent, fetched) = get_all_token_prices w TICKER_LIST START_DATE END_DATE
      in (sent,
          and_then fetched (\<lambda>token_prices.
          and_then (build_table w s token_prices DEPOSIT) (\<lambda>(s', df).
          and_then (show_chart s' df (''Profit from '' @ START_DATE @ '' to '' @ END_DATE))
            (\<lambda>c. Inr (objs s' df, c))))))"

definition main :: "world \<Rightarrow> store \<Rightarrow> request list \<times> (error + table \<times> chart)" where
  "main w s =
     main_with w s [''UNI'', ''SUSHI'', ''BAL'', ''LRC'', ''BNT'', ''IDEX'']
       ''2021-01-01'' ''2021-04-19'' 1000"

subsection \<open>Concrete inputs\<close>

text \<open>Sample responses and a world in which the API has no prices for one ticker.\<close>

definition item :: "string \<Rightarrow> string \<Rightarrow> real \<Rightarrow> price_json" where
  "item t d p = \<lparr>date_str = d, price_num = p, contract_metadata = \<lparr>contract_ticker_symbol = t\<rparr>\<rparr>"
definition history :: "price_json list \<Rightarrow> history_json" where
  "history ps = \<lparr>data = \<lparr>prices = ps\<rparr>\<rparr>"

definition example_world :: world where
  "example_world =
     \<lparr>API_KEY = ''secret'',
      client_get = (\<lambda>req.
        if url req = HISTORICAL_PRICE_ENDPOINT ''BAL''
        then \<lparr>status_code = 404, json = history []\<rparr>
        else \<lparr>status_code = 200, json = history [item ''X'' ''2021-01-01'' 1]\<rparr>),
      arrival = [3, 1, 0, 2, 4],
      to_datetime = iso_date\<rparr>"

text \<open>A summary table with a first price of zero, the scenario of the specification,
  and two histories whose first price is not positive.\<close>

definition example_table :: table where
  "example_table =
     \<lparr>rows =
        [(''UNI'', \<lparr>date_first = (2021, 1, 1), date_last = (2021, 4, 19),
                   date_max = (2021, 3, 1), date_min = (2021, 1, 5),
                   price_first = 4, price_last = 6, price_max = 10, price_min = 2\<rparr>),
         (''ZRO'', \<lparr>date_first = (2021, 1, 1), date_last = (2021, 4, 19),
                   date_max = (2021, 4, 19), date_min = (2021, 1, 1),
                   price_first = 0, price_last = 3, price_max = 3, price_min = 0\<rparr>)],
      extra = []\<rparr>"

definition example_store :: store where
  "example_store = \<lparr>objs = (\<lambda>r. example_table), next_ref = 1\<rparr>"

definition nonpositive_start :: "history_json list" where
  "nonpositive_start =
     [history [item ''ZRO'' ''2021-01-01'' 0, item ''ZRO'' ''2021-01-15'' 3],
      history [item ''NEG'' ''2021-01-01'' (- 2), item ''NEG'' ''2021-01-15'' 5]]"

definition scenario :: "history_json list" where
  "scenario =
     [history [item ''AAA'' ''2021-01-01'' 100, item ''AAA'' ''2021-01-15'' 150,
               item ''AAA'' ''2021-02-01'' 90]]"

text \<open>A world in which the API answers one ticker with an empty list of prices.\<close>

definition skipping_world :: world where
  "skipping_world =
     \<lparr>API_KEY = ''secret'',
      client_get = (\<lambda>req.
        if url req = HISTORICAL_PRICE_ENDPOINT ''BAL''
        then \<lparr>status_code = 200, json = history []\<rparr>
        else \<lparr>status_code = 200,
              json = history [item ''UNI'' ''2021-01-01'' 4, item ''UNI'' ''2021-01-15'' 6]\<rparr>),
      arrival = [1, 0],
      to_datetime = iso_date\<rparr>"

section \<open>Properties\<close>

subsection \<open>Exceptions and the gathering of tasks\<close>

lemma first_error_Some_mem: "first_error rs = Some e \<Longrightarrow> Inl e \<in> set rs"
  by (induction rs rule: first_error.induct) auto

lemma first_error_None_iff: "first_error rs = None \<longleftrightarrow> (\<forall>r \<in> set rs. \<exists>v. r = Inr v)"
  by (induction rs rule: first_error.induct) auto

lemma first_error_mem_Some: "Inl e \<in> set rs \<Longrightarrow> \<exists>e'. first_error rs = Some e'"
  by (cases "first_error rs") (auto simp: first_error_None_iff)

lemma mapM_all_Inr: "(\<And>v. v \<in> set vs \<Longrightarrow> f v = Inr (g v)) \<Longrightarrow> mapM f vs = Inr (map g vs)"
  by (induction vs) auto

lemma completed_subset:
  "set (map (\<lambda>i. snd (tasks ! i)) (filter (\<lambda>i. i < length tasks) order) @ map snd tasks)
     \<subseteq> snd ` set tasks"
  by (auto intro!: imageI nth_mem)

lemma gather_sent: "fst (gather order tasks) = map fst tasks"
  by (simp add: gather_def Let_def)

lemma gather_failure:
  assumes "Inl e \<in> snd ` set tasks"
  shows "\<exists>e'. snd (gather order tasks) = Inl e' \<and> Inl e' \<in> snd ` set tasks"
proof -
  let ?c = "map (\<lambda>i. snd (tasks ! i)) (filter (\<lambda>i. i < length tasks) order) @ map snd tasks"
  have "Inl e \<in> set ?c" using assms by auto
  then obtain e' where e': "first_error ?c = Some e'"
    using first_error_mem_Some by blast
  then have "Inl e' \<in> set ?c" by (rule first_error_Some_mem)
  then have "Inl e' \<in> snd ` set tasks" using completed_subset[of tasks order] by auto
  with e' show ?thesis by (auto simp: gather_def Let_def)
qed

lemma gather_success:
  assumes "\<And>t. t \<in> set tasks \<Longrightarrow> snd t = Inr (g t)"
  shows "snd (gather order tasks) = Inr (map g tasks)"
proof -
  let ?c = "map (\<lambda>i. snd (tasks ! i)) (filter (\<lambda>i. i < length tasks) order) @ map snd tasks"
  have "\<forall>r \<in> set ?c. r \<in> snd ` set tasks" using completed_subset[of tasks order] by auto
  then have "\<forall>r \<in> set ?c. \<exists>v. r = Inr v" using assms by (metis imageE)
  then have "first_error ?c = None" by (simp only: first_error_None_iff)
  then show ?thesis using assms by (simp add: gather_def Let_def mapM_all_Inr)
qed

subsection \<open>Price Fetcher\<close>

lemma get_token_price_history_fst:
  "fst (get_token_price_history w tick from_date to_date) =
     \<lparr>url = HISTORICAL_PRICE_ENDPOINT tick,
      params = [(''key'', API_KEY w), (''from'', from_date), (''to'', to_date)]\<rparr>"
  by (simp add: get_token_price_history_def Let_def)

lemma get_token_price_history_snd:
  "snd (get_token_price_history w tick from_date to_date) =
     (let resp = client_get w \<lparr>url = HISTORICAL_PRICE_ENDPOINT tick,
                  params = [(''key'', API_KEY w), (''from'', from_date), (''to'', to_date)]\<rparr>
      in if status_code resp \<noteq> 200
         then Inl (Exception (''ticker: '' @ tick @ '', status_code: ''
                               @ str_nat (status_code resp)))
         else Inr (json resp))"
  by (simp add: get_token_price_history_def Let_def)

lemma main_with_fetch_failure:
  "snd (get_all_token_prices w ts f t) = Inl e \<Longrightarrow> snd (main_with w s ts f t d) = Inl e"
  by (cases "get_all_token_prices w ts f t") (simp add: main_with_def and_then_def)

text \<open>
  Claim C2. When the API answers a ticker of the list with a status other than 200, the
  fetch of that ticker raises an exception whose message names the ticker and the status;
  the batch fetch then returns no list of histories at all but the exception of one
  failed ticker (whatever the order of completion), and the run ends with that exception
  and neither table nor chart.
\<close>

theorem fetch_failure_aborts_batch:
  assumes "tick \<in> set ticker_list"
    and "status_code (client_get w
           \<lparr>url = HISTORICAL_PRICE_ENDPOINT tick,
            params = [(''key'', API_KEY w), (''from'', from_date), (''to'', to_date)]\<rparr>) \<noteq> 200"
  shows "snd (get_token_price_history w tick from_date to_date) =
           Inl (Exception (''ticker: '' @ tick @ '', status_code: '' @
             str_nat (status_code (client_get w
               \<lparr>url = HISTORICAL_PRICE_ENDPOINT tick,
                params = [(''key'', API_KEY w), (''from'', from_date), (''to'', to_date)]\<rparr>))))
         \<and> (\<exists>t \<in> set ticker_list. \<exists>e.
               snd (get_token_price_history w t from_date to_date) = Inl e
             \<and> snd (get_all_token_prices w ticker_list from_date to_date) = Inl e
             \<and> snd (main_with w s ticker_list from_date to_date deposit) = Inl e)"
proof -
  let ?task = "\<lambda>t. get_token_price_history w t from_date to_date"
  have one: "snd (?task tick) =
           Inl (Exception (''ticker: '' @ tick @ '', status_code: '' @
             str_nat (status_code (client_get w
               \<lparr>url = HISTORICAL_PRICE_ENDPOINT tick,
                params = [(''key'', API_KEY w), (''from'', from_date), (''to'', to_date)]\<rparr>))))"
    using assms(2) by (simp add: get_token_price_history_snd Let_def)
  then have "Inl (Exception (''ticker: '' @ tick @ '', status_code: '' @
             str_nat (status_code (client_get w
               \<lparr>url = HISTORICAL_PRICE_ENDPOINT tick,
                params = [(''key'', API_KEY w), (''from'', from_date), (''to'', to_date)]\<rparr>))))
        \<in> snd ` set (map ?task ticker_list)"
    using assms(1) by (metis image_eqI image_set)
  then obtain e where e: "snd (gather (arrival w) (map ?task ticker_list)) = Inl e"
    and mem: "Inl e \<in> snd ` set (map ?task ticker_list)"
    using gather_failure by blast
  from mem obtain t where t: "t \<in> set ticker_list" "snd (?task t) = Inl e" by auto
  from e have all: "snd (get_all_token_prices w ticker_list from_date to_date) = Inl e"
    by (simp add: get_all_token_prices_def Let_def)
  then have "snd (main_with w s ticker_list from_date to_date deposit) = Inl e"
    by (rule main_with_fetch_failure)
  with one t all show ?thesis by blast
qed

theorem fetch_failure_aborts_batch_witness:
  "''BAL'' \<in> set [''UNI'', ''SUSHI'', ''BAL'', ''LRC'', ''BNT'']
   \<and> status_code (client_get example_world
        \<lparr>url = HISTORICAL_PRICE_ENDPOINT ''BAL'',
         params = [(''key'', API_KEY example_world), (''from'', ''2021-01-01''), (''to'', ''2021-04-19'')]\<rparr>) \<noteq> 200
   \<and> snd (get_token_price_history example_world ''BAL'' ''2021-01-01'' ''2021-04-19'') =
        Inl (Exception ''ticker: BAL, status_code: 404'')
   \<and> (\<exists>e. snd (get_all_token_prices example_world [''UNI'', ''SUSHI'', ''BAL'', ''LRC'', ''BNT'']
                   ''2021-01-01'' ''2021-04-19'') = Inl e)"
  using fetch_failure_aborts_batch [of "''BAL''" "[''UNI'', ''SUSHI'', ''BAL'', ''LRC'', ''BNT'']"
      example_world "''2021-01-01''" "''2021-04-19''"]
  by (simp add: example_world_def HISTORICAL_PRICE_ENDPOINT_def) blast

text \<open>
  Claim C3. For a list of N tickers the batch fetch sends exactly N requests, the one of
  each ticker in the order of the list; when every request is answered with status 200,
  it returns the N histories in the order of the list, whatever the order in which the
  responses arrive.
\<close>

theorem batch_fetch_in_order:
  "fst (get_all_token_prices w ticker_list from_date to_date) =
     map (\<lambda>tick. \<lparr>url = HISTORICAL_PRICE_ENDPOINT tick,
            params = [(''key'', API_KEY w), (''from'', from_date), (''to'', to_date)]\<rparr>) ticker_list
   \<and> length (fst (get_all_token_prices w ticker_list from_date to_date)) = length ticker_list
   \<and> ((\<forall>tick \<in> set ticker_list.
          status_code (client_get w \<lparr>url = HISTORICAL_PRICE_ENDPOINT tick,
            params = [(''key'', API_KEY w), (''from'', from_date), (''to'', to_date)]\<rparr>) = 200)
       \<longrightarrow> (\<forall>order.
             snd (get_all_token_prices (w\<lparr>arrival := order\<rparr>) ticker_list from_date to_date) =
               Inr (map (\<lambda>tick. json (client_get w \<lparr>url = HISTORICAL_PRICE_ENDPOINT tick,
                     params = [(''key'', API_KEY w), (''from'', from_date), (''to'', to_date)]\<rparr>))
                    ticker_list)))"
proof -
  have sent: "fst (get_all_token_prices w ticker_list from_date to_date) =
     map (\<lambda>tick. \<lparr>url = HISTORICAL_PRICE_ENDPOINT tick,
            params = [(''key'', API_KEY w), (''from'', from_date), (''to'', to_date)]\<rparr>) ticker_list"
    by (simp add: get_all_token_prices_def Let_def gather_sent get_token_price_history_fst comp_def)
  have ok: "snd (get_all_token_prices (w\<lparr>arrival := order\<rparr>) ticker_list from_date to_date) =
               Inr (map (\<lambda>tick. json (client_get w \<lparr>url = HISTORICAL_PRICE_ENDPOINT tick,
                     params = [(''key'', API_KEY w), (''from'', from_date), (''to'', to_date)]\<rparr>))
                    ticker_list)"
    if "\<forall>tick \<in> set ticker_list.
          status_code (client_get w \<lparr>url = HISTORICAL_PRICE_ENDPOINT tick,
            params = [(''key'', API_KEY w), (''from'', from_date), (''to'', to_date)]\<rparr>) = 200"
    for order
  proof -
    let ?w = "w\<lparr>arrival := order\<rparr>"
    let ?tasks = "map (\<lambda>tick. get_token_price_history ?w tick from_date to_date) ticker_list"
    have "snd (gather order ?tasks) = Inr (map (\<lambda>t. json (client_get w (fst t))) ?tasks)"
    proof (rule gather_success)
      fix t assume "t \<in> set ?tasks"
      then obtain tick where "tick \<in> set ticker_list"
        and "t = get_token_price_history ?w tick from_date to_date" by auto
      with that show "snd t = Inr (json (client_get w (fst t)))"
        by (simp add: get_token_price_history_def Let_def)
    qed
    then show ?thesis
      by (simp add: get_all_token_prices_def Let_def comp_def get_token_price_history_fst)
  qed
  from sent ok show ?thesis by simp
qed

theorem batch_fetch_in_order_witness:
  "map (\<lambda>tick. status_code (client_get example_world \<lparr>url = HISTORICAL_PRICE_ENDPOINT tick,
          params = [(''key'', API_KEY example_world), (''from'', ''2021-01-01''),
                    (''to'', ''2021-04-19'')]\<rparr>))
       [''UNI'', ''SUSHI'', ''LRC''] = [200, 200, 200]
   \<and> length (fst (get_all_token_prices example_world [''UNI'', ''SUSHI'', ''LRC'']
                     ''2021-01-01'' ''2021-04-19'')) = 3
   \<and> snd (get_all_token_prices (example_world\<lparr>arrival := [2, 0, 1]\<rparr>) [''UNI'', ''SUSHI'', ''LRC'']
            ''2021-01-01'' ''2021-04-19'') =
       Inr [history [item ''X'' ''2021-01-01'' 1], history [item ''X'' ''2021-01-01'' 1],
            history [item ''X'' ''2021-01-01'' 1]]"
  using batch_fetch_in_order [of example_world "[''UNI'', ''SUSHI'', ''LRC'']"
      "''2021-01-01''" "''2021-04-19''"]
  by (simp add: example_world_def HISTORICAL_PRICE_ENDPOINT_def)

subsection \<open>Ratios and profit\<close>

lemma update_fresh: "k \<notin> fst ` set al \<Longrightarrow> AList.update k v al = al @ [(k, v)]"
  by (induction al) auto

lemma objs_setitem:
  "objs (setitem s df n vals) r =
     (if r = df then (objs s df)\<lparr>extra := AList.update n vals (extra (objs s df))\<rparr> else objs s r)"
  by (simp add: setitem_def)

lemma next_ref_setitem: "next_ref (setitem s df n vals) = next_ref s"
  by (simp add: setitem_def)

lemma rows_setitem: "rows (objs (setitem s df n vals) r) = rows (objs s r)"
  by (simp add: objs_setitem)

lemma getitem_setitem:
  "getitem (setitem s df n vals) df m = (if m = n then Inr vals else getitem s df m)"
  by (simp add: getitem_def objs_setitem update_conv')

lemma ratio_columns:
  "getitem (fst (calculate_price_ratio s df)) df ''r_last'' =
     Inr (map (\<lambda>(k, p). fdiv (price_last p) (price_first p)) (rows (objs s df)))"
  "getitem (fst (calculate_price_ratio s df)) df ''r_max'' =
     Inr (map (\<lambda>(k, p). fdiv (price_max p) (price_first p)) (rows (objs s df)))"
  "snd (calculate_price_ratio s df) = df"
  "rows (objs (fst (calculate_price_ratio s df)) r) = rows (objs s r)"
  by (simp_all add: calculate_price_ratio_def Let_def getitem_setitem rows_setitem
        case_prod_unfold comp_def)

lemma profit_result:
  assumes "getitem s df ''r_last'' = Inr rl" and "getitem s df ''r_max'' = Inr rm"
  shows "calculate_profit s df deposit =
     Inr (setitem (setitem s df ''p_last''
                     (map (\<lambda>r. fsub (fmul r (of_int deposit)) (of_int deposit)) rl))
            df ''p_max'' (map (\<lambda>r. fsub (fmul r (of_int deposit)) (of_int deposit)) rm), df)"
  using assms by (simp add: calculate_profit_def and_then_def Let_def getitem_setitem)

lemma fdiv_nonzero: "b \<noteq> 0 \<Longrightarrow> fdiv a b = Fin (a / b)"
  by (simp add: fdiv_def)

text \<open>
  Claim C1. For every table and every deposit, the two functions run without exception
  and the new columns hold, row by row: \<open>r_last\<close> the last price divided by the first,
  \<open>r_max\<close> the largest price divided by the first, \<open>p_last\<close> and \<open>p_max\<close> the ratio
  times the deposit minus the deposit. The division is that of the float columns; where
  the first price is not zero it is the division of the reals.
\<close>

theorem ratio_and_profit_values:
  "\<exists>s' r_last r_max p_last p_max.
     calculate_profit (fst (calculate_price_ratio s df)) (snd (calculate_price_ratio s df)) deposit
       = Inr (s', df)
   \<and> getitem s' df ''r_last'' = Inr r_last \<and> getitem s' df ''r_max'' = Inr r_max
   \<and> getitem s' df ''p_last'' = Inr p_last \<and> getitem s' df ''p_max'' = Inr p_max
   \<and> length r_last = length (rows (objs s df)) \<and> length r_max = length (rows (objs s df))
   \<and> length p_last = length (rows (objs s df)) \<and> length p_max = length (rows (objs s df))
   \<and> (\<forall>i < length (rows (objs s df)).
         r_last ! i = fdiv (price_last (snd (rows (objs s df) ! i)))
                           (price_first (snd (rows (objs s df) ! i)))
       \<and> r_max ! i = fdiv (price_max (snd (rows (objs s df) ! i)))
                          (price_first (snd (rows (objs s df) ! i)))
       \<and> p_last ! i = fsub (fmul (r_last ! i) (of_int deposit)) (of_int deposit)
       \<and> p_max ! i = fsub (fmul (r_max ! i) (of_int deposit)) (of_int deposit)
       \<and> (price_first (snd (rows (objs s df) ! i)) \<noteq> 0 \<longrightarrow>
            r_last ! i = Fin (price_last (snd (rows (objs s df) ! i))
                              / price_first (snd (rows (objs s df) ! i)))
          \<and> r_max ! i = Fin (price_max (snd (rows (objs s df) ! i))
                             / price_first (snd (rows (objs s df) ! i)))
          \<and> p_last ! i = Fin (price_last (snd (rows (objs s df) ! i))
                              / price_first (snd (rows (objs s df) ! i)) * of_int deposit
                              - of_int deposit)
          \<and> p_max ! i = Fin (price_max (snd (rows (objs s df) ! i))
                             / price_first (snd (rows (objs s df) ! i)) * of_int deposit
                             - of_int deposit)))"
proof -
  let ?s1 = "fst (calculate_price_ratio s df)"
  let ?f = "\<lambda>r. fsub (fmul r (of_int deposit)) (of_int deposit)"
  define rl where "rl = map (\<lambda>(k, p). fdiv (price_last p) (price_first p)) (rows (objs s df))"
  define rm where "rm = map (\<lambda>(k, p). fdiv (price_max p) (price_first p)) (rows (objs s df))"
  define pl where "pl = map ?f rl"
  define pm where "pm = map ?f rm"
  define s2 where "s2 = setitem (setitem ?s1 df ''p_last'' pl) df ''p_max'' pm"
  have run: "calculate_profit ?s1 (snd (calculate_price_ratio s df)) deposit = Inr (s2, df)"
    unfolding s2_def pl_def pm_def rl_def rm_def
    by (simp add: ratio_columns(3) profit_result [OF ratio_columns(1) ratio_columns(2)])
  have cols: "getitem s2 df ''r_last'' = Inr rl" "getitem s2 df ''r_max'' = Inr rm"
    "getitem s2 df ''p_last'' = Inr pl" "getitem s2 df ''p_max'' = Inr pm"
    unfolding s2_def rl_def rm_def
    by (simp_all add: getitem_setitem ratio_columns)
  have lens: "length rl = length (rows (objs s df))" "length rm = length (rows (objs s df))"
    "length pl = length (rows (objs s df))" "length pm = length (rows (objs s df))"
    by (simp_all add: rl_def rm_def pl_def pm_def)
  have vals: "\<forall>i < length (rows (objs s df)).
         rl ! i = fdiv (price_last (snd (rows (objs s df) ! i)))
                           (price_first (snd (rows (objs s df) ! i)))
       \<and> rm ! i = fdiv (price_max (snd (rows (objs s df) ! i)))
                          (price_first (snd (rows (objs s df) ! i)))
       \<and> pl ! i = ?f (rl ! i)
       \<and> pm ! i = ?f (rm ! i)
       \<and> (price_first (snd (rows (objs s df) ! i)) \<noteq> 0 \<longrightarrow>
            rl ! i = Fin (price_last (snd (rows (objs s df) ! i))
                              / price_first (snd (rows (objs s df) ! i)))
          \<and> rm ! i = Fin (price_max (snd (rows (objs s df) ! i))
                             / price_first (snd (rows (objs s df) ! i)))
          \<and> pl ! i = Fin (price_last (snd (rows (objs s df) ! i))
                              / price_first (snd (rows (objs s df) ! i)) * of_int deposit
                              - of_int deposit)
          \<and> pm ! i = Fin (price_max (snd (rows (objs s df) ! i))
                             / price_first (snd (rows (objs s df) ! i)) * of_int deposit
                             - of_int deposit))"
    by (simp add: rl_def rm_def pl_def pm_def case_prod_unfold fdiv_nonzero)
  from run cols lens vals show ?thesis by blast
qed

lemma iso_dates:
  "iso_date ''2021-01-01'' = Inr (2021, 1, 1)"
  "iso_date ''2021-01-15'' = Inr (2021, 1, 15)"
  "iso_date ''2021-02-01'' = Inr (2021, 2, 1)"
  by (simp_all add: iso_date_def)

lemma scenario_df:
  "to_datetime w = iso_date \<Longrightarrow> historical_prices_to_df w scenario =
     Inr [\<lparr>date = (2021, 1, 1), price = 100, ticker = ''AAA''\<rparr>,
          \<lparr>date = (2021, 1, 15), price = 150, ticker = ''AAA''\<rparr>,
          \<lparr>date = (2021, 2, 1), price = 90, ticker = ''AAA''\<rparr>]"
  by (simp add: historical_prices_to_df_def json_normalize_def scenario_def history_def item_def
        iso_dates and_then_def)

lemma scenario_table:
  "make_table_df [\<lparr>date = (2021, 1, 1), price = 100, ticker = ''AAA''\<rparr>,
          \<lparr>date = (2021, 1, 15), price = 150, ticker = ''AAA''\<rparr>,
          \<lparr>date = (2021, 2, 1), price = 90, ticker = ''AAA''\<rparr>] =
     Inr \<lparr>rows = [(''AAA'', \<lparr>date_first = (2021, 1, 1), date_last = (2021, 2, 1),
                   date_max = (2021, 1, 15), date_min = (2021, 2, 1),
                   price_first = 100, price_last = 90, price_max = 150, price_min = 90\<rparr>)],
          extra = []\<rparr>"
  by (simp add: make_table_df_def groupby_def idxmax_def idxmin_def loc_def agg_first_last_def
        align_def and_then_def enumerate_eq_zip)


lemma build_table_unfold:
  "historical_prices_to_df w token_prices = Inr df0 \<Longrightarrow> make_table_df df0 = Inr t \<Longrightarrow>
   build_table w s token_prices deposit =
     calculate_profit (fst (calculate_price_ratio (fst (new s t)) (snd (new s t))))
       (snd (calculate_price_ratio (fst (new s t)) (snd (new s t)))) deposit"
  by (simp add: build_table_def and_then_def case_prod_unfold Let_def)

text \<open>
  Claim C7. The series (2021-01-01, 100), (2021-01-15, 150), (2021-02-01, 90) of the
  single ticker AAA with deposit 1000 gives first price 100, last price 90, largest
  price 150, ratios 0.9 and 1.5, profits -100 and 500.
\<close>

theorem scenario_values:
  "\<exists>s'. build_table (w\<lparr>to_datetime := iso_date\<rparr>) s scenario 1000 = Inr (s', next_ref s)
     \<and> objs s' (next_ref s) =
         \<lparr>rows = [(''AAA'', \<lparr>date_first = (2021, 1, 1), date_last = (2021, 2, 1),
                     date_max = (2021, 1, 15), date_min = (2021, 2, 1),
                     price_first = 100, price_last = 90, price_max = 150, price_min = 90\<rparr>)],
          extra = [(''r_last'', [Fin 0.9]), (''r_max'', [Fin 1.5]),
                   (''p_last'', [Fin (- 100)]), (''p_max'', [Fin 500])]\<rparr>"
  by (simp add: build_table_unfold [OF scenario_df scenario_table] new_def
        calculate_price_ratio_def calculate_profit_def setitem_def getitem_def and_then_def
        Let_def fdiv_def)

theorem ratio_and_profit_values_witness:
  "price_first (snd (rows (objs example_store 0) ! 0)) \<noteq> 0
   \<and> (\<exists>s'. calculate_profit (fst (calculate_price_ratio example_store 0))
               (snd (calculate_price_ratio example_store 0)) 1000 = Inr (s', 0)
        \<and> getitem s' 0 ''r_last'' = Inr [Fin (3 / 2), PInf]
        \<and> getitem s' 0 ''r_max'' = Inr [Fin (5 / 2), PInf]
        \<and> getitem s' 0 ''p_last'' = Inr [Fin 500, PInf]
        \<and> getitem s' 0 ''p_max'' = Inr [Fin 1500, PInf])"
  using ratio_and_profit_values [of example_store 0 1000]
  by (simp add: example_store_def example_table_def
        calculate_price_ratio_def calculate_profit_def setitem_def getitem_def and_then_def
        Let_def fdiv_def)

text \<open>
  Claim C8 says that a first price that is zero or negative makes the ratio computation
  fail. It does not: with first prices 0 and -2 the run returns its table, with an
  infinite and a negative ratio.
\<close>

theorem nonpositive_first_price_counterexample:
  "\<exists>s'. build_table example_world example_store nonpositive_start 1000 = Inr (s', 1)
     \<and> map (\<lambda>(k, p). (k, price_first p)) (rows (objs s' 1)) = [(''NEG'', - 2), (''ZRO'', 0)]
     \<and> getitem s' 1 ''r_last'' = Inr [Fin (- (5 / 2)), PInf]
     \<and> getitem s' 1 ''r_max'' = Inr [Fin (- (5 / 2)), PInf]"
proof -
  have df0: "historical_prices_to_df example_world nonpositive_start =
     Inr [\<lparr>date = (2021, 1, 1), price = 0, ticker = ''ZRO''\<rparr>,
          \<lparr>date = (2021, 1, 15), price = 3, ticker = ''ZRO''\<rparr>,
          \<lparr>date = (2021, 1, 1), price = - 2, ticker = ''NEG''\<rparr>,
          \<lparr>date = (2021, 1, 15), price = 5, ticker = ''NEG''\<rparr>]"
    by (simp add: historical_prices_to_df_def json_normalize_def nonpositive_start_def
          history_def item_def iso_dates and_then_def example_world_def)
  have t: "make_table_df [\<lparr>date = (2021, 1, 1), price = 0, ticker = ''ZRO''\<rparr>,
          \<lparr>date = (2021, 1, 15), price = 3, ticker = ''ZRO''\<rparr>,
          \<lparr>date = (2021, 1, 1), price = - 2, ticker = ''NEG''\<rparr>,
          \<lparr>date = (2021, 1, 15), price = 5, ticker = ''NEG''\<rparr>] =
     Inr \<lparr>rows = [(''NEG'', \<lparr>date_first = (2021, 1, 1), date_last = (2021, 1, 15),
                   date_max = (2021, 1, 15), date_min = (2021, 1, 1),
                   price_first = - 2, price_last = 5, price_max = 5, price_min = - 2\<rparr>),
                  (''ZRO'', \<lparr>date_first = (2021, 1, 1), date_last = (2021, 1, 15),
                   date_max = (2021, 1, 15), date_min = (2021, 1, 1),
                   price_first = 0, price_last = 3, price_max = 3, price_min = 0\<rparr>)],
          extra = []\<rparr>"
    by (simp add: make_table_df_def groupby_def idxmax_def idxmin_def loc_def agg_first_last_def
          align_def and_then_def enumerate_eq_zip)
  show ?thesis
    by (simp add: build_table_unfold [OF df0 t] new_def example_store_def
        calculate_price_ratio_def calculate_profit_def setitem_def getitem_def and_then_def
        Let_def fdiv_def)
qed

text \<open>
  Claim C8, amended. For a row whose first price is zero or negative the ratio
  computation raises nothing: a negative first price gives the quotients, a zero first
  price gives plus infinity, minus infinity or not-a-number as the numerator is positive,
  negative or zero; the profit computation then runs as usual.
\<close>

theorem nonpositive_first_price_ratio:
  assumes "i < length (rows (objs s df))"
    and "price_first (snd (rows (objs s df) ! i)) \<le> 0"
  shows "\<exists>r_last r_max s'.
      getitem (fst (calculate_price_ratio s df)) df ''r_last'' = Inr r_last
    \<and> getitem (fst (calculate_price_ratio s df)) df ''r_max'' = Inr r_max
    \<and> r_last ! i =
        (if price_first (snd (rows (objs s df) ! i)) < 0
         then Fin (price_last (snd (rows (objs s df) ! i)) / price_first (snd (rows (objs s df) ! i)))
         else if 0 < price_last (snd (rows (objs s df) ! i)) then PInf
         else if price_last (snd (rows (objs s df) ! i)) < 0 then NInf
         else NaN)
    \<and> r_max ! i =
        (if price_first (snd (rows (objs s df) ! i)) < 0
         then Fin (price_max (snd (rows (objs s df) ! i)) / price_first (snd (rows (objs s df) ! i)))
         else if 0 < price_max (snd (rows (objs s df) ! i)) then PInf
         else if price_max (snd (rows (objs s df) ! i)) < 0 then NInf
         else NaN)
    \<and> calculate_profit (fst (calculate_price_ratio s df)) (snd (calculate_price_ratio s df)) deposit
        = Inr (s', df)"
proof -
  obtain s' where "calculate_profit (fst (calculate_price_ratio s df))
      (snd (calculate_price_ratio s df)) deposit = Inr (s', df)"
    by (simp add: ratio_columns(3) profit_result [OF ratio_columns(1) ratio_columns(2)])
  then show ?thesis
    using assms by (auto simp add: ratio_columns case_prod_unfold fdiv_def)
qed

theorem nonpositive_first_price_ratio_witness:
  "(1 :: nat) < length (rows (objs example_store 0))
   \<and> price_first (snd (rows (objs example_store 0) ! 1)) \<le> 0
   \<and> getitem (fst (calculate_price_ratio example_store 0)) 0 ''r_last'' = Inr [Fin (3 / 2), PInf]
   \<and> getitem (fst (calculate_price_ratio example_store 0)) 0 ''r_max'' = Inr [Fin (5 / 2), PInf]
   \<and> (\<exists>s'. calculate_profit (fst (calculate_price_ratio example_store 0))
              (snd (calculate_price_ratio example_store 0)) 1000 = Inr (s', 0))"
  using nonpositive_first_price_ratio [of 1 example_store 0 1000]
  by (simp add: example_store_def example_table_def
        calculate_price_ratio_def calculate_profit_def setitem_def getitem_def and_then_def
        Let_def fdiv_def)

lemma setitem_fresh:
  "n \<notin> fst ` set (extra (objs s df)) \<Longrightarrow>
   objs (setitem s df n vals) df = (objs s df)\<lparr>extra := extra (objs s df) @ [(n, vals)]\<rparr>"
  by (simp add: objs_setitem update_fresh)

lemma getitem_Inr_iff: "(\<exists>vals. getitem s df n = Inr vals) \<longleftrightarrow> n \<in> fst ` set (extra (objs s df))"
proof (cases "map_of (extra (objs s df)) n")
  case None
  then show ?thesis by (simp add: getitem_def map_of_eq_None_iff [symmetric])
next
  case (Some vals)
  then have "map_of (extra (objs s df)) n \<noteq> None" by simp
  then have "n \<in> fst ` set (extra (objs s df))" by (simp only: map_of_eq_None_iff not_not)
  with Some show ?thesis by (simp add: getitem_def)
qed

text \<open>
  Claim C10. On a table without columns \<open>r_last\<close> and \<open>r_max\<close>,
  \<open>calculate_price_ratio\<close> returns the reference it was given, and the table behind
  it is the old one with exactly these two columns added after the others: the rows and
  all earlier columns are as before, and so is every other object. Likewise
  \<open>calculate_profit\<close>, on a table with the ratio columns, for \<open>p_last\<close> and \<open>p_max\<close>.
\<close>

theorem ratio_and_profit_frame:
  "(''r_last'' \<notin> fst ` set (extra (objs s df)) \<and> ''r_max'' \<notin> fst ` set (extra (objs s df))
      \<longrightarrow> (\<exists>r_last r_max.
             snd (calculate_price_ratio s df) = df
           \<and> objs (fst (calculate_price_ratio s df)) df =
               (objs s df)\<lparr>extra := extra (objs s df) @ [(''r_last'', r_last), (''r_max'', r_max)]\<rparr>
           \<and> (\<forall>r. r \<noteq> df \<longrightarrow> objs (fst (calculate_price_ratio s df)) r = objs s r)
           \<and> next_ref (fst (calculate_price_ratio s df)) = next_ref s))
   \<and> (''r_last'' \<in> fst ` set (extra (objs s df)) \<and> ''r_max'' \<in> fst ` set (extra (objs s df))
      \<and> ''p_last'' \<notin> fst ` set (extra (objs s df)) \<and> ''p_max'' \<notin> fst ` set (extra (objs s df))
      \<longrightarrow> (\<exists>p_last p_max s'.
             calculate_profit s df deposit = Inr (s', df)
           \<and> objs s' df =
               (objs s df)\<lparr>extra := extra (objs s df) @ [(''p_last'', p_last), (''p_max'', p_max)]\<rparr>
           \<and> (\<forall>r. r \<noteq> df \<longrightarrow> objs s' r = objs s r)
           \<and> next_ref s' = next_ref s))"
proof (intro conjI impI)
  assume fresh: "''r_last'' \<notin> fst ` set (extra (objs s df)) \<and> ''r_max'' \<notin> fst ` set (extra (objs s df))"
  define rl where "rl = map (\<lambda>p. fdiv (price_last p) (price_first p)) (map snd (rows (objs s df)))"
  define rm where "rm = map (\<lambda>p. fdiv (price_max p) (price_first p)) (map snd (rows (objs s df)))"
  let ?rl = rl
  let ?rm = rm
  let ?s1 = "setitem s df ''r_last'' ?rl"
  have 1: "objs ?s1 df = (objs s df)\<lparr>extra := extra (objs s df) @ [(''r_last'', ?rl)]\<rparr>"
    using fresh by (simp add: setitem_fresh)
  have "''r_max'' \<notin> fst ` set (extra (objs ?s1 df))" using fresh by (simp add: 1)
  then have 2: "objs (setitem ?s1 df ''r_max'' ?rm) df =
      (objs s df)\<lparr>extra := extra (objs s df) @ [(''r_last'', ?rl), (''r_max'', ?rm)]\<rparr>"
    by (simp add: setitem_fresh 1)
  have "snd (calculate_price_ratio s df) = df
      \<and> objs (fst (calculate_price_ratio s df)) df =
               (objs s df)\<lparr>extra := extra (objs s df) @ [(''r_last'', ?rl), (''r_max'', ?rm)]\<rparr>
      \<and> (\<forall>r. r \<noteq> df \<longrightarrow> objs (fst (calculate_price_ratio s df)) r = objs s r)
      \<and> next_ref (fst (calculate_price_ratio s df)) = next_ref s"
    using 2 unfolding rl_def rm_def
    by (simp add: calculate_price_ratio_def Let_def objs_setitem next_ref_setitem)
  then show "\<exists>r_last r_max.
             snd (calculate_price_ratio s df) = df
           \<and> objs (fst (calculate_price_ratio s df)) df =
               (objs s df)\<lparr>extra := extra (objs s df) @ [(''r_last'', r_last), (''r_max'', r_max)]\<rparr>
           \<and> (\<forall>r. r \<noteq> df \<longrightarrow> objs (fst (calculate_price_ratio s df)) r = objs s r)
           \<and> next_ref (fst (calculate_price_ratio s df)) = next_ref s"
    by blast
next
  assume a: "''r_last'' \<in> fst ` set (extra (objs s df)) \<and> ''r_max'' \<in> fst ` set (extra (objs s df))
      \<and> ''p_last'' \<notin> fst ` set (extra (objs s df)) \<and> ''p_max'' \<notin> fst ` set (extra (objs s df))"
  then obtain rl rm where rl: "getitem s df ''r_last'' = Inr rl" and rm: "getitem s df ''r_max'' = Inr rm"
    using getitem_Inr_iff by blast
  let ?f = "\<lambda>r. fsub (fmul r (of_int deposit)) (of_int deposit)"
  let ?s1 = "setitem s df ''p_last'' (map ?f rl)"
  let ?s2 = "setitem ?s1 df ''p_max'' (map ?f rm)"
  have run: "calculate_profit s df deposit = Inr (?s2, df)"
    by (rule profit_result [OF rl rm])
  have 1: "objs ?s1 df = (objs s df)\<lparr>extra := extra (objs s df) @ [(''p_last'', map ?f rl)]\<rparr>"
    using a by (simp add: setitem_fresh)
  have "''p_max'' \<notin> fst ` set (extra (objs ?s1 df))" using a by (simp add: 1)
  then have 2: "objs ?s2 df =
      (objs s df)\<lparr>extra := extra (objs s df) @ [(''p_last'', map ?f rl), (''p_max'', map ?f rm)]\<rparr>"
    by (simp add: setitem_fresh 1)
  have 3: "(\<forall>r. r \<noteq> df \<longrightarrow> objs ?s2 r = objs s r) \<and> next_ref ?s2 = next_ref s"
    by (simp add: objs_setitem next_ref_setitem)
  from run 2 3 show "\<exists>p_last p_max s'.
             calculate_profit s df deposit = Inr (s', df)
           \<and> objs s' df =
               (objs s df)\<lparr>extra := extra (objs s df) @ [(''p_last'', p_last), (''p_max'', p_max)]\<rparr>
           \<and> (\<forall>r. r \<noteq> df \<longrightarrow> objs s' r = objs s r)
           \<and> next_ref s' = next_ref s"
    by blast
qed


theorem ratio_and_profit_frame_witness:
  "''r_last'' \<notin> fst ` set (extra (objs example_store 0))
   \<and> ''r_max'' \<notin> fst ` set (extra (objs example_store 0))
   \<and> snd (calculate_price_ratio example_store 0) = 0
   \<and> objs (fst (calculate_price_ratio example_store 0)) 0 =
       example_table\<lparr>extra := [(''r_last'', [Fin (3 / 2), PInf]), (''r_max'', [Fin (5 / 2), PInf])]\<rparr>
   \<and> ''r_last'' \<in> fst ` set (extra (objs (fst (calculate_price_ratio example_store 0)) 0))
   \<and> ''r_max'' \<in> fst ` set (extra (objs (fst (calculate_price_ratio example_store 0)) 0))
   \<and> ''p_last'' \<notin> fst ` set (extra (objs (fst (calculate_price_ratio example_store 0)) 0))
   \<and> ''p_max'' \<notin> fst ` set (extra (objs (fst (calculate_price_ratio example_store 0)) 0))
   \<and> (\<exists>s'. calculate_profit (fst (calculate_price_ratio example_store 0)) 0 1000 = Inr (s', 0)
         \<and> objs s' 0 =
             example_table\<lparr>extra := [(''r_last'', [Fin (3 / 2), PInf]), (''r_max'', [Fin (5 / 2), PInf]),
                                     (''p_last'', [Fin 500, PInf]), (''p_max'', [Fin 1500, PInf])]\<rparr>)"
  using ratio_and_profit_frame [of example_store 0 1000]
    ratio_and_profit_frame [of "fst (calculate_price_ratio example_store 0)" 0 1000]
  by (simp add: example_store_def example_table_def
        calculate_price_ratio_def calculate_profit_def setitem_def getitem_def and_then_def
        Let_def fdiv_def)

subsection \<open>The summary table\<close>

lemma mapM_map: "mapM f (map h vs) = mapM (\<lambda>v. f (h v)) vs"
  by (induction vs) (simp_all split: sum.splits)

lemma enumerate_member: "(i, r) \<in> set (enumerate 0 df) \<longleftrightarrow> i < length df \<and> df ! i = r"
  by (auto simp: in_set_enumerate_eq)

lemma idxmax_from_spec:
  "\<exists>p. (idxmax_from b vs, p) \<in> set (b # vs) \<and> (\<forall>x \<in> set (b # vs). snd x \<le> p)"
proof (induction vs arbitrary: b)
  case Nil
  show ?case by (intro exI [of _ "snd b"]) simp
next
  case (Cons v vs)
  let ?b = "if snd b < snd v then v else b"
  from Cons [of ?b] obtain p where p: "(idxmax_from ?b vs, p) \<in> set (?b # vs)"
    "\<forall>x \<in> set (?b # vs). snd x \<le> p" by blast
  have "(idxmax_from b (v # vs), p) \<in> set (b # v # vs)"
    using p(1) by (auto split: if_splits)
  moreover have "\<forall>x \<in> set (b # v # vs). snd x \<le> p"
    using p(2) by (auto split: if_splits)
  ultimately show ?case by blast
qed

lemma idxmin_from_spec:
  "\<exists>p. (idxmin_from b vs, p) \<in> set (b # vs) \<and> (\<forall>x \<in> set (b # vs). p \<le> snd x)"
proof (induction vs arbitrary: b)
  case Nil
  show ?case by (intro exI [of _ "snd b"]) simp
next
  case (Cons v vs)
  let ?b = "if snd v < snd b then v else b"
  from Cons [of ?b] obtain p where p: "(idxmin_from ?b vs, p) \<in> set (?b # vs)"
    "\<forall>x \<in> set (?b # vs). p \<le> snd x" by blast
  have "(idxmin_from b (v # vs), p) \<in> set (b # v # vs)"
    using p(1) by (auto split: if_splits)
  moreover have "\<forall>x \<in> set (b # v # vs). p \<le> snd x"
    using p(2) by (auto split: if_splits)
  ultimately show ?case by blast
qed

lemma group_members:
  "(i, r) \<in> set (filter (\<lambda>(i, r). ticker r = k) (enumerate 0 df))
     \<longleftrightarrow> i < length df \<and> df ! i = r \<and> ticker r = k"
  by (auto simp: enumerate_member)

lemma group_nonempty:
  assumes "k \<in> ticker ` set df"
  shows "filter (\<lambda>(i, r). ticker r = k) (enumerate 0 df) \<noteq> []"
proof -
  from assms obtain i where "i < length df" "ticker (df ! i) = k"
    by (auto simp: in_set_conv_nth)
  then have "(i, df ! i) \<in> set (filter (\<lambda>(i, r). ticker r = k) (enumerate 0 df))"
    by (simp_all add: enumerate_member)
  then show ?thesis by (metis empty_iff empty_set)
qed

lemma group_max:
  assumes "k \<in> ticker ` set df"
  shows "\<exists>i. i < length df \<and> ticker (df ! i) = k
           \<and> (\<forall>r \<in> set df. ticker r = k \<longrightarrow> price r \<le> price (df ! i))
           \<and> and_then (idxmax (map (\<lambda>(i, r). (i, price r))
                          (filter (\<lambda>(i, r). ticker r = k) (enumerate 0 df)))) (loc df)
               = Inr (k, date (df ! i), price (df ! i))"
proof -
  let ?g = "filter (\<lambda>(i, r). ticker r = k) (enumerate 0 df)"
  let ?s = "map (\<lambda>(i, r). (i, price r)) ?g"
  from group_nonempty [OF assms] obtain v vs where s: "?s = v # vs"
    by (cases ?s) auto
  from idxmax_from_spec [of v vs] obtain p where p: "(idxmax_from v vs, p) \<in> set ?s"
    "\<forall>x \<in> set ?s. snd x \<le> p" unfolding s by blast
  let ?i = "idxmax_from v vs"
  from p(1) obtain r where "(?i, r) \<in> set ?g" "p = price r" by auto
  then have i: "?i < length df" "ticker (df ! ?i) = k" "price (df ! ?i) = p"
    by (simp_all add: enumerate_member)
  have "price r \<le> p" if "r \<in> set df" "ticker r = k" for r
  proof -
    from that obtain j where "j < length df" "df ! j = r" by (auto simp: in_set_conv_nth)
    with that have "(j, r) \<in> set ?g" by (simp_all add: enumerate_member)
    then have "(j, price r) \<in> set ?s" by force
    with p(2) show ?thesis by force
  qed
  moreover have "and_then (idxmax ?s) (loc df) = Inr (k, date (df ! ?i), price (df ! ?i))"
    using i by (simp add: s idxmax_def and_then_def loc_def)
  ultimately show ?thesis using i by blast
qed

lemma group_min:
  assumes "k \<in> ticker ` set df"
  shows "\<exists>i. i < length df \<and> ticker (df ! i) = k
           \<and> (\<forall>r \<in> set df. ticker r = k \<longrightarrow> price (df ! i) \<le> price r)
           \<and> and_then (idxmin (map (\<lambda>(i, r). (i, price r))
                          (filter (\<lambda>(i, r). ticker r = k) (enumerate 0 df)))) (loc df)
               = Inr (k, date (df ! i), price (df ! i))"
proof -
  let ?g = "filter (\<lambda>(i, r). ticker r = k) (enumerate 0 df)"
  let ?s = "map (\<lambda>(i, r). (i, price r)) ?g"
  from group_nonempty [OF assms] obtain v vs where s: "?s = v # vs"
    by (cases ?s) auto
  from idxmin_from_spec [of v vs] obtain p where p: "(idxmin_from v vs, p) \<in> set ?s"
    "\<forall>x \<in> set ?s. p \<le> snd x" unfolding s by blast
  let ?i = "idxmin_from v vs"
  from p(1) obtain r where "(?i, r) \<in> set ?g" "p = price r" by auto
  then have i: "?i < length df" "ticker (df ! ?i) = k" "price (df ! ?i) = p"
    by (simp_all add: enumerate_member)
  have "p \<le> price r" if "r \<in> set df" "ticker r = k" for r
  proof -
    from that obtain j where "j < length df" "df ! j = r" by (auto simp: in_set_conv_nth)
    with that have "(j, r) \<in> set ?g" by (simp_all add: enumerate_member)
    then have "(j, price r) \<in> set ?s" by force
    with p(2) show ?thesis by force
  qed
  moreover have "and_then (idxmin ?s) (loc df) = Inr (k, date (df ! ?i), price (df ! ?i))"
    using i by (simp add: s idxmin_def and_then_def loc_def)
  ultimately show ?thesis using i by blast
qed

lemma sorted_le_last:
  "sorted (map f (v # vs)) \<Longrightarrow> x \<in> set (v # vs) \<Longrightarrow> f x \<le> f (last (v # vs))"
  by (induction vs arbitrary: v) auto

lemma sorted_first_last:
  assumes "sorted (map f (v # vs))" and "x \<in> set (v # vs)"
  shows "f v \<le> f x \<and> f x \<le> f (last (v # vs))"
proof -
  have "f v \<le> f x" using assms by auto
  with sorted_le_last [OF assms] show ?thesis by simp
qed

lemma group_first_last:
  assumes "k \<in> ticker ` set df"
  shows "\<exists>a b. a \<in> set df \<and> b \<in> set df \<and> ticker a = k \<and> ticker b = k
           \<and> (\<forall>r \<in> set df. ticker r = k \<longrightarrow> date a \<le> date r \<and> date r \<le> date b)
           \<and> agg_first_last (k, filter (\<lambda>(i, r). ticker r = k)
                                   (sort_key (\<lambda>(i, r). date r) (enumerate 0 df)))
               = Inr (k, (date a, date b), (price a, price b))"
proof -
  let ?f = "\<lambda>(i :: nat, r). date r"
  let ?g = "filter (\<lambda>(i, r). ticker r = k) (sort_key ?f (enumerate 0 df))"
  have mem: "x \<in> set ?g \<longleftrightarrow> x \<in> set (filter (\<lambda>(i, r). ticker r = k) (enumerate 0 df))" for x
    by simp
  have "?g \<noteq> []"
  proof
    assume e: "?g = []"
    have "set (filter (\<lambda>(i, r). ticker r = k) (enumerate 0 df)) = set ?g" by simp
    also have "\<dots> = {}" by (simp only: e list.set)
    finally have "filter (\<lambda>(i, r). ticker r = k) (enumerate 0 df) = []"
      by (simp only: set_empty)
    with group_nonempty [OF assms] show False by contradiction
  qed
  then obtain v vs where g: "?g = v # vs" by (cases ?g) auto
  have srt: "sorted (map ?f (v # vs))"
    unfolding g [symmetric] by (rule sorted_filter) (rule sorted_sort_key)
  have inset: "snd x \<in> set df \<and> ticker (snd x) = k" if "x \<in> set (v # vs)" for x
  proof -
    from that have "x \<in> set ?g" by (simp add: g)
    then have "(fst x, snd x) \<in> set (filter (\<lambda>(i, r). ticker r = k) (enumerate 0 df))"
      by (simp only: mem prod.collapse)
    then show ?thesis by (auto simp add: enumerate_member)
  qed
  have v: "snd v \<in> set df \<and> ticker (snd v) = k" by (rule inset) simp
  have l: "snd (last (v # vs)) \<in> set df \<and> ticker (snd (last (v # vs))) = k"
    by (rule inset) (rule last_in_set, simp)
  have bounds: "date (snd v) \<le> date r \<and> date r \<le> date (snd (last (v # vs)))"
    if "r \<in> set df" "ticker r = k" for r
  proof -
    from that obtain j where "j < length df" "df ! j = r" by (auto simp: in_set_conv_nth)
    with that have "(j, r) \<in> set (filter (\<lambda>(i, r). ticker r = k) (enumerate 0 df))"
      by (simp add: enumerate_member)
    then have "(j, r) \<in> set (v # vs)" by (simp only: mem [symmetric] g)
    from sorted_first_last [OF srt this] show ?thesis
      by (simp add: case_prod_unfold)
  qed
  have "agg_first_last (k, ?g) =
      Inr (k, (date (snd v), date (snd (last (v # vs)))), (price (snd v), price (snd (last (v # vs)))))"
    by (simp only: g agg_first_last_def fst_conv snd_conv list.case)
  with v l bounds show ?thesis by blast
qed

lemma enumerate_tickers: "map (\<lambda>(i, r). ticker r) (enumerate 0 df) = map ticker df"
  by (rule nth_equalityI) (simp_all add: nth_enumerate_eq)

lemma groupby_enumerate:
  "groupby (enumerate 0 df) =
     map (\<lambda>k. (k, filter (\<lambda>(i, r). ticker r = k) (enumerate 0 df)))
         (sort (remdups (map ticker df)))"
  by (simp only: groupby_def enumerate_tickers)

lemma groupby_sorted:
  "groupby (sort_key f (enumerate 0 df)) =
     map (\<lambda>k. (k, filter (\<lambda>(i, r). ticker r = k) (sort_key f (enumerate 0 df))))
         (sort (remdups (map ticker df)))"
proof -
  have "set (map (\<lambda>(i, r). ticker r) (sort_key f (enumerate 0 df)))
          = set (map (\<lambda>(i, r). ticker r) (enumerate 0 df))"
    by simp
  then have "set (map (\<lambda>(i, r). ticker r) (sort_key f (enumerate 0 df)))
          = set (map ticker df)"
    by (simp only: enumerate_tickers)
  then have "sorted_list_of_set (set (map (\<lambda>(i, r). ticker r) (sort_key f (enumerate 0 df))))
          = sorted_list_of_set (set (map ticker df))"
    by simp
  then have "sort (remdups (map (\<lambda>(i, r). ticker r) (sort_key f (enumerate 0 df))))
          = sort (remdups (map ticker df))"
    by (simp only: sorted_list_of_set_sort_remdups)
  then show ?thesis by (simp only: groupby_def)
qed

lemma align_same_keys:
  "align (map (\<lambda>k. (k, a k)) ks) (map (\<lambda>k. (k, b k)) ks) = Inr (map (\<lambda>k. (k, a k, b k)) ks)"
proof -
  have "map_of (map (\<lambda>k. (k, b k)) ks) k = Some (b k)" if "k \<in> set ks" for k
    using that by (induction ks) auto
  then show ?thesis
    by (simp add: align_def mapM_map mapM_all_Inr)
qed

lemma make_table_df_rows:
  "\<exists>imax imin a b.
     make_table_df df =
       Inr \<lparr>rows = map (\<lambda>k. (k, \<lparr>date_first = date (a k), date_last = date (b k),
                                  date_max = date (df ! imax k), date_min = date (df ! imin k),
                                  price_first = price (a k), price_last = price (b k),
                                  price_max = price (df ! imax k),
                                  price_min = price (df ! imin k)\<rparr>))
                       (sort (remdups (map ticker df))),
            extra = []\<rparr>
   \<and> (\<forall>k \<in> ticker ` set df.
         imax k < length df \<and> ticker (df ! imax k) = k
       \<and> imin k < length df \<and> ticker (df ! imin k) = k
       \<and> a k \<in> set df \<and> ticker (a k) = k \<and> b k \<in> set df \<and> ticker (b k) = k
       \<and> (\<forall>r \<in> set df. ticker r = k \<longrightarrow>
             price (df ! imin k) \<le> price r \<and> price r \<le> price (df ! imax k)
           \<and> date (a k) \<le> date r \<and> date r \<le> date (b k)))"
proof -
  let ?K = "sort (remdups (map ticker df))"
  let ?E = "enumerate 0 df"
  let ?grp = "\<lambda>k. filter (\<lambda>(i, r). ticker r = k) ?E"
  let ?sgrp = "\<lambda>k. filter (\<lambda>(i, r). ticker r = k) (sort_key (\<lambda>(i, r). date r) ?E)"
  have "\<forall>k \<in> ticker ` set df. \<exists>i. i < length df \<and> ticker (df ! i) = k
           \<and> (\<forall>r \<in> set df. ticker r = k \<longrightarrow> price r \<le> price (df ! i))
           \<and> and_then (idxmax (map (\<lambda>(i, r). (i, price r)) (?grp k))) (loc df)
               = Inr (k, date (df ! i), price (df ! i))"
    using group_max by blast
  from bchoice [OF this] obtain imax where imax: "\<forall>k \<in> ticker ` set df. imax k < length df \<and> ticker (df ! imax k) = k
           \<and> (\<forall>r \<in> set df. ticker r = k \<longrightarrow> price r \<le> price (df ! imax k))
           \<and> and_then (idxmax (map (\<lambda>(i, r). (i, price r)) (?grp k))) (loc df)
               = Inr (k, date (df ! imax k), price (df ! imax k))"
    by blast
  have "\<forall>k \<in> ticker ` set df. \<exists>i. i < length df \<and> ticker (df ! i) = k
           \<and> (\<forall>r \<in> set df. ticker r = k \<longrightarrow> price (df ! i) \<le> price r)
           \<and> and_then (idxmin (map (\<lambda>(i, r). (i, price r)) (?grp k))) (loc df)
               = Inr (k, date (df ! i), price (df ! i))"
    using group_min by blast
  from bchoice [OF this] obtain imin where imin: "\<forall>k \<in> ticker ` set df. imin k < length df \<and> ticker (df ! imin k) = k
           \<and> (\<forall>r \<in> set df. ticker r = k \<longrightarrow> price (df ! imin k) \<le> price r)
           \<and> and_then (idxmin (map (\<lambda>(i, r). (i, price r)) (?grp k))) (loc df)
               = Inr (k, date (df ! imin k), price (df ! imin k))"
    by blast
  have "\<forall>k \<in> ticker ` set df. \<exists>ab. fst ab \<in> set df \<and> snd ab \<in> set df
           \<and> ticker (fst ab) = k \<and> ticker (snd ab) = k
           \<and> (\<forall>r \<in> set df. ticker r = k \<longrightarrow> date (fst ab) \<le> date r \<and> date r \<le> date (snd ab))
           \<and> agg_first_last (k, ?sgrp k)
               = Inr (k, (date (fst ab), date (snd ab)), (price (fst ab), price (snd ab)))"
  proof
    fix k assume "k \<in> ticker ` set df"
    from group_first_last [OF this] obtain a b where
      "a \<in> set df \<and> b \<in> set df \<and> ticker a = k \<and> ticker b = k
           \<and> (\<forall>r \<in> set df. ticker r = k \<longrightarrow> date a \<le> date r \<and> date r \<le> date b)
           \<and> agg_first_last (k, ?sgrp k) = Inr (k, (date a, date b), (price a, price b))"
      by blast
    then show "\<exists>ab. fst ab \<in> set df \<and> snd ab \<in> set df
           \<and> ticker (fst ab) = k \<and> ticker (snd ab) = k
           \<and> (\<forall>r \<in> set df. ticker r = k \<longrightarrow> date (fst ab) \<le> date r \<and> date r \<le> date (snd ab))
           \<and> agg_first_last (k, ?sgrp k)
               = Inr (k, (date (fst ab), date (snd ab)), (price (fst ab), price (snd ab)))"
      by (intro exI [of _ "(a, b)"]) simp
  qed
  from bchoice [OF this] obtain ab where ab: "\<forall>k \<in> ticker ` set df. fst (ab k) \<in> set df \<and> snd (ab k) \<in> set df
           \<and> ticker (fst (ab k)) = k \<and> ticker (snd (ab k)) = k
           \<and> (\<forall>r \<in> set df. ticker r = k \<longrightarrow> date (fst (ab k)) \<le> date r \<and> date r \<le> date (snd (ab k)))
           \<and> agg_first_last (k, ?sgrp k)
               = Inr (k, (date (fst (ab k)), date (snd (ab k))), (price (fst (ab k)), price (snd (ab k))))"
    by blast
  have K: "set ?K = ticker ` set df" by simp
  have df_max: "mapM (\<lambda>(k, g). and_then (idxmax (map (\<lambda>(i, r). (i, price r)) g)) (loc df))
                  (groupby ?E)
                = Inr (map (\<lambda>k. (k, date (df ! imax k), price (df ! imax k))) ?K)"
    unfolding groupby_enumerate mapM_map
    by (rule mapM_all_Inr) (use imax K in force)
  have df_min: "mapM (\<lambda>(k, g). and_then (idxmin (map (\<lambda>(i, r). (i, price r)) g)) (loc df))
                  (groupby ?E)
                = Inr (map (\<lambda>k. (k, date (df ! imin k), price (df ! imin k))) ?K)"
    unfolding groupby_enumerate mapM_map
    by (rule mapM_all_Inr) (use imin K in force)
  have df_first_last: "mapM agg_first_last (groupby (sort_key (\<lambda>(i, r). date r) ?E))
                = Inr (map (\<lambda>k. (k, (date (fst (ab k)), date (snd (ab k))),
                                     (price (fst (ab k)), price (snd (ab k))))) ?K)"
    unfolding groupby_sorted mapM_map
    by (rule mapM_all_Inr) (use ab K in force)
  have run: "make_table_df df =
       Inr \<lparr>rows = map (\<lambda>k. (k, \<lparr>date_first = date (fst (ab k)), date_last = date (snd (ab k)),
                                  date_max = date (df ! imax k), date_min = date (df ! imin k),
                                  price_first = price (fst (ab k)), price_last = price (snd (ab k)),
                                  price_max = price (df ! imax k),
                                  price_min = price (df ! imin k)\<rparr>))
                       ?K,
            extra = []\<rparr>"
    unfolding make_table_df_def df_max df_min df_first_last
    by (simp add: and_then_def align_same_keys comp_def)
  show ?thesis
    apply (rule exI [of _ imax], rule exI [of _ imin])
    apply (rule exI [of _ "\<lambda>k. fst (ab k)"], rule exI [of _ "\<lambda>k. snd (ab k)"])
    apply (rule conjI [OF run])
    using imax imin ab by blast
qed

text \<open>
  Claim C4. The summary of a frame is always built. It has one row for every ticker
  that has a sample, and in that row the first date is not after the last date, the
  smallest price is at most, and the largest price at least, every price sample of
  that ticker, the first and the last price among them; the dates of the ticker's samples
  lie between the first and the last date.
\<close>

theorem summary_bounds:
  "\<exists>t. make_table_df df = Inr t
     \<and> map fst (rows t) = sort (remdups (map ticker df))
     \<and> (\<forall>(k, sm) \<in> set (rows t).
           k \<in> ticker ` set df
         \<and> date_first sm \<le> date_last sm
         \<and> price_min sm \<le> price_first sm \<and> price_first sm \<le> price_max sm
         \<and> price_min sm \<le> price_last sm \<and> price_last sm \<le> price_max sm
         \<and> price_min sm \<le> price_max sm
         \<and> (\<forall>r \<in> set df. ticker r = k \<longrightarrow>
               price_min sm \<le> price r \<and> price r \<le> price_max sm
             \<and> date_first sm \<le> date r \<and> date r \<le> date_last sm))"
proof -
  from make_table_df_rows [of df] obtain imax imin a b where
    run: "make_table_df df =
       Inr \<lparr>rows = map (\<lambda>k. (k, \<lparr>date_first = date (a k), date_last = date (b k),
                                  date_max = date (df ! imax k), date_min = date (df ! imin k),
                                  price_first = price (a k), price_last = price (b k),
                                  price_max = price (df ! imax k),
                                  price_min = price (df ! imin k)\<rparr>))
                       (sort (remdups (map ticker df))),
            extra = []\<rparr>"
    and grp: "\<forall>k \<in> ticker ` set df.
         imax k < length df \<and> ticker (df ! imax k) = k
       \<and> imin k < length df \<and> ticker (df ! imin k) = k
       \<and> a k \<in> set df \<and> ticker (a k) = k \<and> b k \<in> set df \<and> ticker (b k) = k
       \<and> (\<forall>r \<in> set df. ticker r = k \<longrightarrow>
             price (df ! imin k) \<le> price r \<and> price r \<le> price (df ! imax k)
           \<and> date (a k) \<le> date r \<and> date r \<le> date (b k))"
    by blast
  let ?S = "\<lambda>k. \<lparr>date_first = date (a k), date_last = date (b k),
                                  date_max = date (df ! imax k), date_min = date (df ! imin k),
                                  price_first = price (a k), price_last = price (b k),
                                  price_max = price (df ! imax k),
                                  price_min = price (df ! imin k)\<rparr>"
  let ?t = "\<lparr>rows = map (\<lambda>k. (k, ?S k)) (sort (remdups (map ticker df))), extra = []\<rparr>"
  have keys: "map fst (rows ?t) = sort (remdups (map ticker df))"
    by (simp add: comp_def)
  have each: "k \<in> ticker ` set df
         \<and> date_first (?S k) \<le> date_last (?S k)
         \<and> price_min (?S k) \<le> price_first (?S k) \<and> price_first (?S k) \<le> price_max (?S k)
         \<and> price_min (?S k) \<le> price_last (?S k) \<and> price_last (?S k) \<le> price_max (?S k)
         \<and> price_min (?S k) \<le> price_max (?S k)
         \<and> (\<forall>r \<in> set df. ticker r = k \<longrightarrow>
               price_min (?S k) \<le> price r \<and> price r \<le> price_max (?S k)
             \<and> date_first (?S k) \<le> date r \<and> date r \<le> date_last (?S k))"
    if "k \<in> ticker ` set df" for k
  proof -
    from grp that have g: "imax k < length df" "ticker (df ! imax k) = k"
      "a k \<in> set df" "ticker (a k) = k" "b k \<in> set df" "ticker (b k) = k"
      and all: "\<forall>r \<in> set df. ticker r = k \<longrightarrow>
             price (df ! imin k) \<le> price r \<and> price r \<le> price (df ! imax k)
           \<and> date (a k) \<le> date r \<and> date r \<le> date (b k)"
      by blast+
    have m: "df ! imax k \<in> set df" using g(1) by simp
    from all g(3,4) have 1: "price (df ! imin k) \<le> price (a k)" "price (a k) \<le> price (df ! imax k)"
      by blast+
    from all g(5,6) have 2: "price (df ! imin k) \<le> price (b k)" "price (b k) \<le> price (df ! imax k)"
      "date (a k) \<le> date (b k)"
      by blast+
    from all m g(2) have 3: "price (df ! imin k) \<le> price (df ! imax k)" by blast
    from that 1 2 3 all show ?thesis by simp
  qed
  have "\<forall>(k, sm) \<in> set (rows ?t).
           k \<in> ticker ` set df
         \<and> date_first sm \<le> date_last sm
         \<and> price_min sm \<le> price_first sm \<and> price_first sm \<le> price_max sm
         \<and> price_min sm \<le> price_last sm \<and> price_last sm \<le> price_max sm
         \<and> price_min sm \<le> price_max sm
         \<and> (\<forall>r \<in> set df. ticker r = k \<longrightarrow>
               price_min sm \<le> price r \<and> price r \<le> price_max sm
             \<and> date_first sm \<le> date r \<and> date r \<le> date_last sm)"
  proof (clarify)
    fix k sm assume "(k, sm) \<in> set (rows ?t)"
    then have "k \<in> ticker ` set df" and sm: "sm = ?S k" by auto
    from each [OF this(1)] show "k \<in> ticker ` set df
         \<and> date_first sm \<le> date_last sm
         \<and> price_min sm \<le> price_first sm \<and> price_first sm \<le> price_max sm
         \<and> price_min sm \<le> price_last sm \<and> price_last sm \<le> price_max sm
         \<and> price_min sm \<le> price_max sm
         \<and> (\<forall>r \<in> set df. ticker r = k \<longrightarrow>
               price_min sm \<le> price r \<and> price r \<le> price_max sm
             \<and> date_first sm \<le> date r \<and> date r \<le> date_last sm)"
      unfolding sm .
  qed
  with run keys show ?thesis by blast
qed

theorem summary_bounds_witness:
  "\<exists>t. make_table_df [\<lparr>date = (2021, 1, 1), price = 100, ticker = ''AAA''\<rparr>,
          \<lparr>date = (2021, 1, 15), price = 150, ticker = ''AAA''\<rparr>,
          \<lparr>date = (2021, 2, 1), price = 90, ticker = ''AAA''\<rparr>] = Inr t
     \<and> map fst (rows t) = [''AAA'']
     \<and> map (\<lambda>(k, sm). (date_first sm, date_last sm, price_min sm, price_max sm)) (rows t)
         = [((2021, 1, 1), (2021, 2, 1), 90, 150)]"
  using summary_bounds [of "[\<lparr>date = (2021, 1, 1), price = 100, ticker = ''AAA''\<rparr>,
          \<lparr>date = (2021, 1, 15), price = 150, ticker = ''AAA''\<rparr>,
          \<lparr>date = (2021, 2, 1), price = 90, ticker = ''AAA''\<rparr>]"]
  unfolding scenario_table by simp

subsection \<open>Table Builder\<close>

lemma historical_prices_to_df_rows:
  assumes "\<forall>p \<in> set (json_normalize token_prices). \<exists>d. to_datetime w (date_str p) = Inr d"
    and "json_normalize token_prices \<noteq> []"
  shows "historical_prices_to_df w token_prices =
           Inr (map (\<lambda>p. \<lparr>date = projr (to_datetime w (date_str p)), price = price_num p,
                            ticker = contract_ticker_symbol (contract_metadata p)\<rparr>)
                    (json_normalize token_prices))"
proof -
  have "mapM (\<lambda>r. and_then (to_datetime w (date_str r))
                            (\<lambda>d. Inr \<lparr>date = d, price = price_num r,
                                      ticker = contract_ticker_symbol (contract_metadata r)\<rparr>))
          (json_normalize token_prices)
        = Inr (map (\<lambda>p. \<lparr>date = projr (to_datetime w (date_str p)), price = price_num p,
                            ticker = contract_ticker_symbol (contract_metadata p)\<rparr>)
                    (json_normalize token_prices))"
  proof (rule mapM_all_Inr)
    fix p assume "p \<in> set (json_normalize token_prices)"
    with assms(1) obtain d where "to_datetime w (date_str p) = Inr d" by blast
    then show "and_then (to_datetime w (date_str p))
                 (\<lambda>d. Inr \<lparr>date = d, price = price_num p,
                           ticker = contract_ticker_symbol (contract_metadata p)\<rparr>)
               = Inr \<lparr>date = projr (to_datetime w (date_str p)), price = price_num p,
                      ticker = contract_ticker_symbol (contract_metadata p)\<rparr>"
      by (simp add: and_then_def)
  qed
  with assms(2) show ?thesis by (simp add: historical_prices_to_df_def Let_def)
qed

text \<open>
  Claim C5 says that flattening yields exactly K rows for every raw history with K
  price samples. At K = 0 it does not: when the API answers the one ticker asked for
  with status 200 and an empty list of prices, flattening raises the key error of the
  column selection and yields no table, of zero rows or otherwise.
\<close>

theorem flatten_no_sample_counterexample:
  "snd (get_all_token_prices skipping_world [''BAL''] ''2021-01-01'' ''2021-04-19'')
     = Inr [history []]
   \<and> length (prices (data (history []))) = 0
   \<and> historical_prices_to_df skipping_world [history []]
       = Inl (KeyError ''date, price, contract_metadata.contract_ticker_symbol'')
   \<and> (\<nexists>df. historical_prices_to_df skipping_world [history []] = Inr df)"
proof -
  have fetch: "snd (get_all_token_prices skipping_world [''BAL''] ''2021-01-01'' ''2021-04-19'')
     = Inr [history []]"
    by (simp add: get_all_token_prices_def gather_def get_token_price_history_def Let_def
          skipping_world_def HISTORICAL_PRICE_ENDPOINT_def)
  have len: "length (prices (data (history []))) = 0"
    by (simp add: history_def)
  have run: "historical_prices_to_df skipping_world [history []]
       = Inl (KeyError ''date, price, contract_metadata.contract_ticker_symbol'')"
    by (simp add: historical_prices_to_df_def json_normalize_def history_def)
  from fetch len run show ?thesis by simp
qed

text \<open>
  Claim C5, amended. When the fetched histories hold at least one sample between them
  and every date string is parsed, flattening gives one row per sample, in the order of
  the histories: as many rows as samples, for every ticker as many rows as samples that
  carry its symbol in the nested field, every row with that symbol, the price of its
  sample (a number, which the numeric coercion returns as it is) and the parsed date of
  its sample. When the histories hold no sample at all, flattening raises the key error
  of the column selection.
\<close>

theorem flatten_rows:
  "(json_normalize token_prices = [] \<longrightarrow>
      historical_prices_to_df w token_prices
        = Inl (KeyError ''date, price, contract_metadata.contract_ticker_symbol''))
   \<and> ((\<forall>p \<in> set (json_normalize token_prices). \<exists>d. to_datetime w (date_str p) = Inr d)
      \<and> json_normalize token_prices \<noteq> []
      \<longrightarrow> (\<exists>df. historical_prices_to_df w token_prices = Inr df
        \<and> length df = length (concat (map (\<lambda>h. prices (data h)) token_prices))
        \<and> (\<forall>i < length df.
              ticker (df ! i) =
                contract_ticker_symbol (contract_metadata (json_normalize token_prices ! i))
            \<and> price (df ! i) = price_num (json_normalize token_prices ! i)
            \<and> to_datetime w (date_str (json_normalize token_prices ! i)) = Inr (date (df ! i)))
        \<and> (\<forall>k. length (filter (\<lambda>r. ticker r = k) df) =
                 length (filter (\<lambda>p. contract_ticker_symbol (contract_metadata p) = k)
                           (concat (map (\<lambda>h. prices (data h)) token_prices))))))"
proof (intro conjI impI, goal_cases)
  case 1
  then show ?case by (simp add: historical_prices_to_df_def)
next
  case 2
  then have ok: "\<forall>p \<in> set (json_normalize token_prices). \<exists>d. to_datetime w (date_str p) = Inr d"
    and ne: "json_normalize token_prices \<noteq> []"
    by blast+
  let ?items = "json_normalize token_prices"
  let ?g = "\<lambda>p. \<lparr>date = projr (to_datetime w (date_str p)), price = price_num p,
                  ticker = contract_ticker_symbol (contract_metadata p)\<rparr>"
  have run: "historical_prices_to_df w token_prices = Inr (map ?g ?items)"
    by (rule historical_prices_to_df_rows [OF ok ne])
  have len: "length (map ?g ?items) = length (concat (map (\<lambda>h. prices (data h)) token_prices))"
    by (simp add: json_normalize_def)
  have each: "\<forall>i < length (map ?g ?items).
              ticker (map ?g ?items ! i) = contract_ticker_symbol (contract_metadata (?items ! i))
            \<and> price (map ?g ?items ! i) = price_num (?items ! i)
            \<and> to_datetime w (date_str (?items ! i)) = Inr (date (map ?g ?items ! i))"
  proof (intro allI impI)
    fix i assume i: "i < length (map ?g ?items)"
    then have "?items ! i \<in> set ?items" by simp
    with ok obtain d where "to_datetime w (date_str (?items ! i)) = Inr d" by blast
    with i show "ticker (map ?g ?items ! i) = contract_ticker_symbol (contract_metadata (?items ! i))
            \<and> price (map ?g ?items ! i) = price_num (?items ! i)
            \<and> to_datetime w (date_str (?items ! i)) = Inr (date (map ?g ?items ! i))"
      by simp
  qed
  have count: "\<forall>k. length (filter (\<lambda>r. ticker r = k) (map ?g ?items)) =
                 length (filter (\<lambda>p. contract_ticker_symbol (contract_metadata p) = k)
                           (concat (map (\<lambda>h. prices (data h)) token_prices)))"
    by (simp add: filter_map comp_def json_normalize_def)
  from run len each count
  show ?case
    by blast
qed

theorem flatten_rows_witness:
  "map (\<lambda>p. to_datetime example_world (date_str p)) (json_normalize scenario) =
     [Inr (2021, 1, 1), Inr (2021, 1, 15), Inr (2021, 2, 1)]
   \<and> json_normalize scenario \<noteq> []
   \<and> length (concat (map (\<lambda>h. prices (data h)) scenario)) = 3
   \<and> historical_prices_to_df example_world scenario =
       Inr [\<lparr>date = (2021, 1, 1), price = 100, ticker = ''AAA''\<rparr>,
            \<lparr>date = (2021, 1, 15), price = 150, ticker = ''AAA''\<rparr>,
            \<lparr>date = (2021, 2, 1), price = 90, ticker = ''AAA''\<rparr>]
   \<and> json_normalize [history [], history []] = []
   \<and> historical_prices_to_df example_world [history [], history []]
       = Inl (KeyError ''date, price, contract_metadata.contract_ticker_symbol'')"
proof -
  have w: "to_datetime example_world = iso_date" by (simp add: example_world_def)
  have 1: "map (\<lambda>p. to_datetime example_world (date_str p)) (json_normalize scenario) =
     [Inr (2021, 1, 1), Inr (2021, 1, 15), Inr (2021, 2, 1)]"
    unfolding w by (simp add: json_normalize_def scenario_def history_def item_def iso_dates)
  have 2: "json_normalize scenario \<noteq> []"
    by (simp add: json_normalize_def scenario_def history_def item_def)
  have 3: "length (concat (map (\<lambda>h. prices (data h)) scenario)) = 3"
    by (simp add: scenario_def history_def item_def)
  have 4: "json_normalize [history [], history []] = []"
    by (simp add: json_normalize_def history_def)
  with flatten_rows [of "[history [], history []]" example_world]
  have 5: "historical_prices_to_df example_world [history [], history []]
       = Inl (KeyError ''date, price, contract_metadata.contract_ticker_symbol'')"
    by blast
  note flatten_rows [of scenario example_world]
  with 1 2 3 4 5 scenario_df [OF w] show ?thesis by blast
qed

subsection \<open>Empty responses, and running twice\<close>

lemma json_normalize_skips_empty:
  "json_normalize (filter (\<lambda>h. prices (data h) \<noteq> []) token_prices) = json_normalize token_prices"
  by (induction token_prices) (simp_all add: json_normalize_def)

lemma json_normalize_all_empty:
  "\<forall>h \<in> set token_prices. prices (data h) = [] \<Longrightarrow> json_normalize token_prices = []"
  by (simp add: json_normalize_def)

lemma main_with_after_fetch:
  "snd (get_all_token_prices w ts f t) = Inr token_prices \<Longrightarrow>
   snd (main_with w s ts f t d) =
     and_then (build_table w s token_prices d) (\<lambda>(s', df).
       and_then (show_chart s' df (''Profit from '' @ f @ '' to '' @ t))
         (\<lambda>c. Inr (objs s' df, c)))"
  by (cases "get_all_token_prices w ts f t") (simp add: main_with_def and_then_def)

text \<open>
  Claim C6 says that a ticker whose response holds no price sample makes the run fail
  with an error that names the condition, and no chart. It does not: when the API
  answers BAL with status 200 and an empty list of prices, and UNI with two samples, the
  run ends with a table and a chart that hold UNI alone.
\<close>

theorem empty_history_counterexample:
  "\<exists>t c. snd (get_all_token_prices skipping_world [''UNI'', ''BAL''] ''2021-01-01'' ''2021-04-19'')
           = Inr [history [item ''UNI'' ''2021-01-01'' 4, item ''UNI'' ''2021-01-15'' 6], history []]
        \<and> snd (main_with skipping_world example_store [''UNI'', ''BAL'']
                 ''2021-01-01'' ''2021-04-19'' 1000) = Inr (t, c)
        \<and> map fst (rows t) = [''UNI'']
        \<and> tickers c = [''UNI'']
        \<and> bars c = [(''p_last'', [Fin 500]), (''p_max'', [Fin 500])]"
proof -
  let ?tps = "[history [item ''UNI'' ''2021-01-01'' 4, item ''UNI'' ''2021-01-15'' 6], history []]"
  have fetch: "snd (get_all_token_prices skipping_world [''UNI'', ''BAL''] ''2021-01-01'' ''2021-04-19'')
           = Inr ?tps"
    by (simp add: get_all_token_prices_def gather_def get_token_price_history_def Let_def
          skipping_world_def HISTORICAL_PRICE_ENDPOINT_def)
  have w: "to_datetime skipping_world = iso_date" by (simp add: skipping_world_def)
  have df0: "historical_prices_to_df skipping_world ?tps =
     Inr [\<lparr>date = (2021, 1, 1), price = 4, ticker = ''UNI''\<rparr>,
          \<lparr>date = (2021, 1, 15), price = 6, ticker = ''UNI''\<rparr>]"
    by (simp add: historical_prices_to_df_def json_normalize_def
          history_def item_def iso_dates and_then_def w)
  have t: "make_table_df [\<lparr>date = (2021, 1, 1), price = 4, ticker = ''UNI''\<rparr>,
          \<lparr>date = (2021, 1, 15), price = 6, ticker = ''UNI''\<rparr>] =
     Inr \<lparr>rows = [(''UNI'', \<lparr>date_first = (2021, 1, 1), date_last = (2021, 1, 15),
                   date_max = (2021, 1, 15), date_min = (2021, 1, 1),
                   price_first = 4, price_last = 6, price_max = 6, price_min = 4\<rparr>)],
          extra = []\<rparr>"
    by (simp add: make_table_df_def groupby_def idxmax_def idxmin_def loc_def agg_first_last_def
          align_def and_then_def enumerate_eq_zip)
  show ?thesis
    unfolding main_with_after_fetch [OF fetch] fetch build_table_unfold [OF df0 t]
    by (simp add: new_def example_store_def show_chart_def
        calculate_price_ratio_def calculate_profit_def setitem_def getitem_def and_then_def
        Let_def fdiv_def)
qed

text \<open>
  Claim C6, amended. A response without price samples contributes no row: the table and
  the metrics are those of the batch without it, so its ticker is absent from the
  result and nothing is raised on that account. Only when every response of the batch
  is empty does the run fail, with the key error of the column selection, before any
  table or chart.
\<close>

theorem empty_history_skipped:
  "build_table w s token_prices deposit =
     build_table w s (filter (\<lambda>h. prices (data h) \<noteq> []) token_prices) deposit
   \<and> ((\<forall>h \<in> set token_prices. prices (data h) = []) \<longrightarrow>
        build_table w s token_prices deposit =
          Inl (KeyError ''date, price, contract_metadata.contract_ticker_symbol'')
      \<and> (snd (get_all_token_prices w ticker_list from_date to_date) = Inr token_prices \<longrightarrow>
           snd (main_with w s ticker_list from_date to_date deposit) =
             Inl (KeyError ''date, price, contract_metadata.contract_ticker_symbol'')))"
proof (intro conjI impI)
  have "historical_prices_to_df w (filter (\<lambda>h. prices (data h) \<noteq> []) token_prices)
          = historical_prices_to_df w token_prices"
    by (simp only: historical_prices_to_df_def json_normalize_skips_empty)
  then show "build_table w s token_prices deposit =
     build_table w s (filter (\<lambda>h. prices (data h) \<noteq> []) token_prices) deposit"
    by (simp only: build_table_def)
next
  assume "\<forall>h \<in> set token_prices. prices (data h) = []"
  then have "json_normalize token_prices = []" by (rule json_normalize_all_empty)
  then show e: "build_table w s token_prices deposit =
          Inl (KeyError ''date, price, contract_metadata.contract_ticker_symbol'')"
    by (simp add: build_table_def historical_prices_to_df_def and_then_def)
  assume "snd (get_all_token_prices w ticker_list from_date to_date) = Inr token_prices"
  from main_with_after_fetch [OF this]
  show "snd (main_with w s ticker_list from_date to_date deposit) =
             Inl (KeyError ''date, price, contract_metadata.contract_ticker_symbol'')"
    by (simp add: e and_then_def)
qed

theorem empty_history_skipped_witness:
  "list_all (\<lambda>h. prices (data h) = []) [history [], history []]
   \<and> build_table example_world example_store [history [], history []] 1000 =
       Inl (KeyError ''date, price, contract_metadata.contract_ticker_symbol'')
   \<and> build_table example_world example_store (history [] # scenario) 1000 =
       build_table example_world example_store scenario 1000"
proof -
  have e: "\<forall>h \<in> set [history [], history []]. prices (data h) = []"
    by (simp add: history_def)
  with empty_history_skipped [of example_world example_store "[history [], history []]" 1000]
  have 1: "build_table example_world example_store [history [], history []] 1000 =
       Inl (KeyError ''date, price, contract_metadata.contract_ticker_symbol'')"
    by blast
  have "filter (\<lambda>h. prices (data h) \<noteq> []) (history [] # scenario) = scenario"
    by (simp add: history_def scenario_def)
  with empty_history_skipped [of example_world example_store "history [] # scenario" 1000]
  have 2: "build_table example_world example_store (history [] # scenario) 1000 =
       build_table example_world example_store scenario 1000"
    by simp
  from e 1 2 show ?thesis by (simp add: list_all_iff)
qed

lemma summary_total: "\<exists>t. make_table_df df = Inr t"
  using make_table_df_rows [of df] by blast

lemma metrics_on_new:
  "\<exists>t'. \<forall>s. calculate_profit (fst (calculate_price_ratio (fst (new s t)) (snd (new s t))))
              (snd (calculate_price_ratio (fst (new s t)) (snd (new s t)))) deposit
            = Inr (s\<lparr>objs := (objs s)(next_ref s := t'), next_ref := Suc (next_ref s)\<rparr>, next_ref s)"
proof -
  let ?f = "\<lambda>r. fsub (fmul r (of_int deposit)) (of_int deposit)"
  let ?rl = "map (\<lambda>p. fdiv (price_last p) (price_first p)) (map snd (rows t))"
  let ?rm = "map (\<lambda>p. fdiv (price_max p) (price_first p)) (map snd (rows t))"
  let ?t' = "t\<lparr>extra := AList.update ''p_max'' (map ?f ?rm) (AList.update ''p_last'' (map ?f ?rl)
               (AList.update ''r_max'' ?rm (AList.update ''r_last'' ?rl (extra t))))\<rparr>"
  have "calculate_profit (fst (calculate_price_ratio (fst (new s t)) (snd (new s t))))
              (snd (calculate_price_ratio (fst (new s t)) (snd (new s t)))) deposit
            = Inr (s\<lparr>objs := (objs s)(next_ref s := ?t'), next_ref := Suc (next_ref s)\<rparr>, next_ref s)"
    for s
    by (simp add: new_def calculate_price_ratio_def calculate_profit_def setitem_def getitem_def
          and_then_def Let_def update_conv')
  then show ?thesis by blast
qed

lemma build_table_cases:
  "(\<exists>e. \<forall>w' s. to_datetime w' = to_datetime (w :: world) \<longrightarrow>
          build_table w' s token_prices deposit = Inl e)
   \<or> (\<exists>t. \<forall>w' s. to_datetime w' = to_datetime w \<longrightarrow>
          build_table w' s token_prices deposit =
            Inr (s\<lparr>objs := (objs s)(next_ref s := t), next_ref := Suc (next_ref s)\<rparr>, next_ref s))"
proof (cases "historical_prices_to_df w token_prices")
  case (Inl e)
  have "build_table w' s token_prices deposit = Inl e"
    if "to_datetime w' = to_datetime w" for w' :: world and s
  proof -
    have "historical_prices_to_df w' token_prices = historical_prices_to_df w token_prices"
      unfolding historical_prices_to_df_def that ..
    with Inl have "historical_prices_to_df w' token_prices = Inl e" by simp
    then show ?thesis by (simp add: build_table_def and_then_def)
  qed
  then show ?thesis by blast
next
  case (Inr df0)
  from summary_total [of df0] obtain t where t: "make_table_df df0 = Inr t" by blast
  from metrics_on_new [of t deposit] obtain t' where
    t': "\<And>s. calculate_profit (fst (calculate_price_ratio (fst (new s t)) (snd (new s t))))
            (snd (calculate_price_ratio (fst (new s t)) (snd (new s t)))) deposit
          = Inr (s\<lparr>objs := (objs s)(next_ref s := t'), next_ref := Suc (next_ref s)\<rparr>, next_ref s)"
    by blast
  have "build_table w' s token_prices deposit =
          Inr (s\<lparr>objs := (objs s)(next_ref s := t'), next_ref := Suc (next_ref s)\<rparr>, next_ref s)"
    if "to_datetime w' = to_datetime w" for w' :: world and s
  proof -
    have "historical_prices_to_df w' token_prices = historical_prices_to_df w token_prices"
      unfolding historical_prices_to_df_def that ..
    with Inr have "historical_prices_to_df w' token_prices = Inr df0" by simp
    from build_table_unfold [OF this t] show ?thesis by (simp only: t')
  qed
  then show ?thesis by blast
qed

text \<open>
  Claim C9. The table and its metrics are determined by the fetched histories, the
  deposit and the date parser alone: from any other state of the store, and with any
  other API and order of completion, the same input gives the same exception or a table
  with the same content. A second run after the first puts its table in a new object
  and leaves the first table as it was.
\<close>

theorem table_and_metrics_deterministic:
  assumes "to_datetime w' = to_datetime w"
  shows "(\<forall>e. build_table w s token_prices deposit = Inl e \<longrightarrow>
              build_table w' s' token_prices deposit = Inl e)
       \<and> (\<forall>s1 df1. build_table w s token_prices deposit = Inr (s1, df1) \<longrightarrow>
             (\<exists>s2 df2. build_table w' s' token_prices deposit = Inr (s2, df2)
                      \<and> objs s2 df2 = objs s1 df1)
           \<and> (\<exists>s2 df2. build_table w' s1 token_prices deposit = Inr (s2, df2)
                      \<and> objs s2 df2 = objs s1 df1
                      \<and> df2 \<noteq> df1 \<and> objs s2 df1 = objs s1 df1))"
proof -
  have ww: "to_datetime w = to_datetime w" by simp
  from build_table_cases [of w token_prices deposit] show ?thesis
  proof
    assume "\<exists>e. \<forall>w' s. to_datetime w' = to_datetime w \<longrightarrow> build_table w' s token_prices deposit = Inl e"
    then obtain e where e: "\<And>w' s. to_datetime w' = to_datetime w \<Longrightarrow>
        build_table w' s token_prices deposit = Inl e" by blast
    show ?thesis by (simp add: e [OF ww] e [OF assms])
  next
    assume "\<exists>t. \<forall>w' s. to_datetime w' = to_datetime w \<longrightarrow>
          build_table w' s token_prices deposit =
            Inr (s\<lparr>objs := (objs s)(next_ref s := t), next_ref := Suc (next_ref s)\<rparr>, next_ref s)"
    then obtain t where t: "\<And>w' s. to_datetime w' = to_datetime w \<Longrightarrow>
          build_table w' s token_prices deposit =
            Inr (s\<lparr>objs := (objs s)(next_ref s := t), next_ref := Suc (next_ref s)\<rparr>, next_ref s)"
      by blast
    show ?thesis by (simp add: t [OF ww] t [OF assms])
  qed
qed

theorem table_and_metrics_deterministic_witness:
  "to_datetime skipping_world = to_datetime example_world
   \<and> (\<exists>s1 s2. build_table example_world example_store scenario 1000 = Inr (s1, 1)
        \<and> build_table skipping_world s1 scenario 1000 = Inr (s2, 2)
        \<and> objs s2 2 = objs s1 1 \<and> objs s2 1 = objs s1 1)"
proof -
  have w: "to_datetime skipping_world = to_datetime example_world"
    by (simp add: skipping_world_def example_world_def)
  have w1: "to_datetime example_world = iso_date" by (simp add: example_world_def)
  have w2: "to_datetime skipping_world = iso_date" by (simp add: skipping_world_def)
  note d = table_and_metrics_deterministic [OF w, of example_store scenario 1000 example_store]
  have "\<exists>s1. build_table example_world example_store scenario 1000 = Inr (s1, 1)"
    unfolding build_table_unfold [OF scenario_df [OF w1] scenario_table]
    by (simp add: new_def example_store_def
        calculate_price_ratio_def calculate_profit_def setitem_def getitem_def and_then_def
        Let_def)
  then obtain s1 where s1: "build_table example_world example_store scenario 1000 = Inr (s1, 1)"
    by blast
  have nr: "next_ref s1 = 2"
    using s1 unfolding build_table_unfold [OF scenario_df [OF w1] scenario_table]
    by (auto simp add: new_def example_store_def
        calculate_price_ratio_def calculate_profit_def setitem_def getitem_def and_then_def
        Let_def)
  from d s1 obtain s2 df2 where s2: "build_table skipping_world s1 scenario 1000 = Inr (s2, df2)"
    "objs s2 df2 = objs s1 1" "objs s2 1 = objs s1 1" by blast
  have "df2 = 2"
    using s2(1) nr unfolding build_table_unfold [OF scenario_df [OF w2] scenario_table]
    by (auto simp add: new_def
        calculate_price_ratio_def calculate_profit_def setitem_def getitem_def and_then_def
        Let_def)
  with w s1 s2 show ?thesis by blast
qed

end
